theory Spec2Isabelle
  imports Complex_Main "HOL-Library.AList"
begin

section \<open>JavaScript values\<close>

text \<open>
  The lead routes (\<^verbatim>\<open>routes/leads.js\<close>) are an ES module, so the code runs in strict
  mode. The values it handles are modelled as follows.

  \<^item> A value of the parsed query string (\<^verbatim>\<open>req.query\<close>) is a string, an array or a nested
    object: \<open>qval\<close>.
  \<^item> A number is an exact rational, an infinity or NaN: \<open>jsnum\<close>. The rounding of a literal
    to the nearest double is not modelled.
  \<^item> A \<^verbatim>\<open>Date\<close> is its time value in milliseconds, or the invalid date: \<open>jsdate\<close>.
  \<^item> A value stored in the Mongo query object is a primitive string or number, or an object
    with its own string-keyed properties in insertion order: a plain object, an array, a
    \<^verbatim>\<open>Date\<close> or an \<^verbatim>\<open>ObjectId\<close>: \<open>jsval\<close>.
\<close>

datatype qval = QStr string | QArr "qval list" | QObj "(string \<times> qval) list"

datatype jsnum = Num rat | PosInf | NegInf | NaN

datatype jsdate = Date int | InvalidDate

datatype jsval =
    VStr string
  | VNum jsnum
  | VObj "(string \<times> jsval) list"
  | VArr "jsval list" "(string \<times> jsval) list"
  | VDate jsdate "(string \<times> jsval) list"
  | VId nat "(string \<times> jsval) list"

datatype error = TypeError

fun inject :: "qval \<Rightarrow> jsval" where
  "inject (QStr s) = VStr s"
| "inject (QArr xs) = VArr (map inject xs) []"
| "inject (QObj ps) = VObj (map (\<lambda>(k, v). (k, inject v)) ps)"

subsection \<open>ToString and Number\<close>

fun join_comma :: "string list \<Rightarrow> string" where
  "join_comma [] = []"
| "join_comma [s] = s"
| "join_comma (s # t # ss) = s @ '','' @ join_comma (t # ss)"

text \<open>\<^verbatim>\<open>String(value)\<close>: an array joins the strings of its elements with commas.\<close>

fun toString :: "qval \<Rightarrow> string" where
  "toString (QStr s) = s"
| "toString (QArr xs) = join_comma (map toString xs)"
| "toString (QObj ps) = ''[object Object]''"

definition isWhiteSpace :: "char \<Rightarrow> bool" where
  "isWhiteSpace c \<longleftrightarrow> c \<in> set [CHR '' '', CHR 0x09, CHR 0x0A, CHR 0x0B, CHR 0x0C, CHR 0x0D, CHR 0xA0]"

definition trim :: "string \<Rightarrow> string" where
  "trim s = rev (dropWhile isWhiteSpace (rev (dropWhile isWhiteSpace s)))"

definition digit_of :: "char \<Rightarrow> nat option" where
  "digit_of c =
     (let n = of_char c :: nat in
      if 48 \<le> n \<and> n \<le> 57 then Some (n - 48)
      else if 97 \<le> n \<and> n \<le> 102 then Some (n - 87)
      else if 65 \<le> n \<and> n \<le> 70 then Some (n - 55)
      else None)"

fun digitsVal :: "nat \<Rightarrow> string \<Rightarrow> nat \<Rightarrow> nat option" where
  "digitsVal b [] acc = Some acc"
| "digitsVal b (c # cs) acc =
     (case digit_of c of
        None \<Rightarrow> None
      | Some d \<Rightarrow> if d < b then digitsVal b cs (acc * b + d) else None)"

text \<open>One or more digits of the given radix.\<close>

definition natLiteral :: "nat \<Rightarrow> string \<Rightarrow> nat option" where
  "natLiteral b s = (if s = [] then None else digitsVal b s 0)"

definition isExpMark :: "char \<Rightarrow> bool" where
  "isExpMark c \<longleftrightarrow> c = CHR ''e'' \<or> c = CHR ''E''"

text \<open>The exponent part after the \<^verbatim>\<open>e\<close>: an optional sign and one or more digits.\<close>

definition exponentPart :: "string \<Rightarrow> int option" where
  "exponentPart s =
     (case s of
        [] \<Rightarrow> None
      | c # cs \<Rightarrow>
          if c = CHR ''-'' then map_option (\<lambda>n. - int n) (natLiteral 10 cs)
          else if c = CHR ''+'' then map_option int (natLiteral 10 cs)
          else map_option int (natLiteral 10 s))"

text \<open>\<^verbatim>\<open>digits\<close>, \<^verbatim>\<open>digits.\<close>, \<^verbatim>\<open>digits.digits\<close> or \<^verbatim>\<open>.digits\<close>.\<close>

definition mantissa :: "string \<Rightarrow> rat option" where
  "mantissa s =
     (let ip = takeWhile (\<lambda>c. c \<noteq> CHR ''.'') s; rest = dropWhile (\<lambda>c. c \<noteq> CHR ''.'') s in
      if rest = [] then map_option of_nat (natLiteral 10 ip)
      else
        (let fp = tl rest in
         if ip = [] \<and> fp = [] then None
         else
           (case (digitsVal 10 ip 0, digitsVal 10 fp 0) of
              (Some i, Some f) \<Rightarrow> Some (of_nat i + of_nat f / 10 ^ length fp)
            | _ \<Rightarrow> None)))"

definition scale10 :: "rat \<Rightarrow> int \<Rightarrow> rat" where
  "scale10 r e = (if 0 \<le> e then r * 10 ^ nat e else r / 10 ^ nat (- e))"

text \<open>StrUnsignedDecimalLiteral of the ECMAScript grammar.\<close>

definition unsignedDecimal :: "string \<Rightarrow> jsnum" where
  "unsignedDecimal s =
     (if s = ''Infinity'' then PosInf
      else
        (let m = takeWhile (\<lambda>c. \<not> isExpMark c) s; rest = dropWhile (\<lambda>c. \<not> isExpMark c) s in
         case mantissa m of
           None \<Rightarrow> NaN
         | Some r \<Rightarrow>
             if rest = [] then Num r
             else (case exponentPart (tl rest) of None \<Rightarrow> NaN | Some e \<Rightarrow> Num (scale10 r e))))"

definition negate :: "jsnum \<Rightarrow> jsnum" where
  "negate n = (case n of Num r \<Rightarrow> Num (- r) | PosInf \<Rightarrow> NegInf | NegInf \<Rightarrow> PosInf | NaN \<Rightarrow> NaN)"

definition radixLiteral :: "nat \<Rightarrow> string \<Rightarrow> jsnum" where
  "radixLiteral b s = (case natLiteral b s of None \<Rightarrow> NaN | Some n \<Rightarrow> Num (of_nat n))"

text \<open>
  StringToNumber: white space is trimmed, the empty string is 0, then a binary, octal or
  hexadecimal integer literal, or a signed decimal literal; anything else is NaN.
\<close>

definition stringToNumber :: "string \<Rightarrow> jsnum" where
  "stringToNumber str =
     (let s = trim str in
      case s of
        [] \<Rightarrow> Num 0
      | c # cs \<Rightarrow>
          if c = CHR ''0'' \<and> cs \<noteq> [] \<and> hd cs \<in> set ''xX'' then radixLiteral 16 (tl cs)
          else if c = CHR ''0'' \<and> cs \<noteq> [] \<and> hd cs \<in> set ''oO'' then radixLiteral 8 (tl cs)
          else if c = CHR ''0'' \<and> cs \<noteq> [] \<and> hd cs \<in> set ''bB'' then radixLiteral 2 (tl cs)
          else if c = CHR ''-'' then negate (unsignedDecimal cs)
          else if c = CHR ''+'' then unsignedDecimal cs
          else unsignedDecimal s)"

text \<open>\<^verbatim>\<open>Number(value)\<close> on a query-string value: the value is converted to a string first.\<close>

definition Number :: "qval \<Rightarrow> jsnum" where
  "Number v = stringToNumber (toString v)"

section \<open>The filter compiler\<close>

text \<open>
  The Mongo query under construction is a plain object: its own properties in insertion
  order (JavaScript lists integer-like names first; nothing below depends on the order).
\<close>

type_synonym query = "(string \<times> jsval) list"

text \<open>
  The parsing of date strings and the server's time zone belong to the runtime:
  \<open>parseDate\<close> is \<^verbatim>\<open>Date.parse\<close>, and \<open>endOfLocalDay\<close> is the time value left by
  \<^verbatim>\<open>setHours(23, 59, 59, 999)\<close> on a valid date.
\<close>

record runtime =
  parseDate :: "string \<Rightarrow> jsdate"
  endOfLocalDay :: "int \<Rightarrow> jsdate"

text \<open>\<^verbatim>\<open>new Date(value)\<close>: a value that is not a string is converted to one first.\<close>

definition newDate :: "runtime \<Rightarrow> qval \<Rightarrow> jsdate" where
  "newDate rt v = parseDate rt (toString v)"

definition setHoursEnd :: "runtime \<Rightarrow> jsdate \<Rightarrow> jsdate" where
  "setHoursEnd rt d = (case d of InvalidDate \<Rightarrow> InvalidDate | Date t \<Rightarrow> endOfLocalDay rt t)"

text \<open>
  The names without an underscore that every plain object inherits from
  \<^verbatim>\<open>Object.prototype\<close>; each is a function, hence truthy.
\<close>

definition protoProps :: "string list" where
  "protoProps = [''constructor'', ''hasOwnProperty'', ''isPrototypeOf'',
     ''propertyIsEnumerable'', ''toLocaleString'', ''toString'', ''valueOf'']"

fun truthy :: "jsval \<Rightarrow> bool" where
  "truthy (VStr s) = (s \<noteq> [])"
| "truthy (VNum n) = (n \<noteq> Num 0 \<and> n \<noteq> NaN)"
| "truthy _ = True"

text \<open>\<^verbatim>\<open>!query[field]\<close>\<close>

definition isFalsyAt :: "query \<Rightarrow> string \<Rightarrow> bool" where
  "isFalsyAt q f = (case map_of q f of None \<Rightarrow> f \<notin> set protoProps | Some v \<Rightarrow> \<not> truthy v)"

text \<open>
  \<^verbatim>\<open>obj[p] = v\<close> in strict mode: a primitive cannot take a property, an object gets or
  updates its own property.
\<close>

fun setProp :: "jsval \<Rightarrow> string \<Rightarrow> jsval \<Rightarrow> error + jsval" where
  "setProp (VStr s) p v = Inl TypeError"
| "setProp (VNum n) p v = Inl TypeError"
| "setProp (VObj ps) p v = Inr (VObj (AList.update p v ps))"
| "setProp (VArr xs ps) p v = Inr (VArr xs (AList.update p v ps))"
| "setProp (VDate d ps) p v = Inr (VDate d (AList.update p v ps))"
| "setProp (VId i ps) p v = Inr (VId i (AList.update p v ps))"

text \<open>
  \<^verbatim>\<open>query[field][p] = v\<close>. When \<open>field\<close> is not an own property of the query, the
  property read finds an inherited function of \<^verbatim>\<open>Object.prototype\<close>, which takes the new
  property and leaves the query as it is, or finds \<^verbatim>\<open>undefined\<close>, which raises.
\<close>

definition assignProp :: "query \<Rightarrow> string \<Rightarrow> string \<Rightarrow> jsval \<Rightarrow> error + query" where
  "assignProp q f p v =
     (case map_of q f of
        None \<Rightarrow> if f \<in> set protoProps then Inr q else Inl TypeError
      | Some obj \<Rightarrow>
          (case setProp obj p v of
             Inl e \<Rightarrow> Inl e
           | Inr obj' \<Rightarrow> Inr (AList.update f obj' q)))"

definition hasUnderscore :: "string \<Rightarrow> bool" where
  "hasUnderscore key \<longleftrightarrow> CHR ''_'' \<in> set key"

text \<open>\<^verbatim>\<open>const [field, operator] = key.split('_')\<close>, for a key that has an underscore.\<close>

definition fieldOf :: "string \<Rightarrow> string" where
  "fieldOf key = takeWhile (\<lambda>c. c \<noteq> CHR ''_'') key"

definition operatorOf :: "string \<Rightarrow> string" where
  "operatorOf key = takeWhile (\<lambda>c. c \<noteq> CHR ''_'') (tl (dropWhile (\<lambda>c. c \<noteq> CHR ''_'') key))"

text \<open>The \<^verbatim>\<open>switch (operator)\<close>; it has no default case.\<close>

definition applyOperator :: "runtime \<Rightarrow> query \<Rightarrow> string \<Rightarrow> string \<Rightarrow> qval \<Rightarrow> error + query" where
  "applyOperator rt q field operator v =
     (if operator = ''equals'' then Inr (AList.update field (inject v) q)
      else if operator = ''contains'' then
        Inr (AList.update field (VObj [(''$regex'', inject v), (''$options'', VStr ''i'')]) q)
      else if operator = ''in'' then
        Inr (AList.update field
          (VObj [(''$in'', case v of QArr xs \<Rightarrow> inject v | _ \<Rightarrow> VArr [inject v] [])]) q)
      else if operator = ''gt'' then assignProp q field ''$gt'' (VNum (Number v))
      else if operator = ''lt'' then assignProp q field ''$lt'' (VNum (Number v))
      else if operator = ''between'' then
        (case v of
           QArr [v0, v1] \<Rightarrow>
             (case assignProp q field ''$gte'' (VNum (Number v0)) of
                Inl e \<Rightarrow> Inl e
              | Inr q' \<Rightarrow> assignProp q' field ''$lte'' (VNum (Number v1)))
         | _ \<Rightarrow> Inr q)
      else if operator = ''before'' then assignProp q field ''$lt'' (VDate (newDate rt v) [])
      else if operator = ''after'' then assignProp q field ''$gt'' (VDate (newDate rt v) [])
      else if operator = ''on'' then
        Inr (AList.update field
          (VObj [(''$gte'', VDate (newDate rt v) []),
                 (''$lte'', VDate (setHoursEnd rt (newDate rt v)) [])]) q)
      else Inr q)"

text \<open>The body of the \<^verbatim>\<open>forEach\<close> callback for one key and its value.\<close>

definition filterStep :: "runtime \<Rightarrow> query \<Rightarrow> string \<Rightarrow> qval \<Rightarrow> error + query" where
  "filterStep rt q key v =
     (if hasUnderscore key then
        (let field = fieldOf key; operator = operatorOf key;
             q1 = (if isFalsyAt q field then AList.update field (VObj []) q else q)
         in applyOperator rt q1 field operator v)
      else if key \<in> set [''status'', ''source'', ''is_qualified''] then
        Inr (AList.update key (inject v) q)
      else Inr q)"

text \<open>
  \<^verbatim>\<open>Object.keys(filters).forEach(...)\<close> over the parameters in key order; an exception
  ends the loop.
\<close>

fun forEachKey :: "runtime \<Rightarrow> (string \<times> qval) list \<Rightarrow> query \<Rightarrow> error + query" where
  "forEachKey rt [] q = Inr q"
| "forEachKey rt ((key, v) # rest) q =
     (case filterStep rt q key v of
        Inl e \<Rightarrow> Inl e
      | Inr q' \<Rightarrow> forEachKey rt rest q')"

definition buildFilterQuery :: "runtime \<Rightarrow> (string \<times> qval) list \<Rightarrow> nat \<Rightarrow> error + query" where
  "buildFilterQuery rt filters userId = forEachKey rt filters [(''user_id'', VId userId [])]"

text \<open>
  A sample runtime for evaluating the compiler on concrete inputs: a server whose local
  time is UTC, which reads the date-only form \<^verbatim>\<open>YYYY-MM-DD\<close> and takes every other string
  as an invalid date.
\<close>

definition daysFromCivil :: "int \<Rightarrow> int \<Rightarrow> int \<Rightarrow> int" where
  "daysFromCivil y m d =
     (let y' = (if m \<le> 2 then y - 1 else y);
          era = y' div 400;
          yoe = y' - era * 400;
          doy = (153 * (if m > 2 then m - 3 else m + 9) + 2) div 5 + d - 1;
          doe = yoe * 365 + yoe div 4 - yoe div 100 + doy
      in era * 146097 + doe - 719468)"

definition daysInMonth :: "nat \<Rightarrow> nat \<Rightarrow> nat" where
  "daysInMonth y m =
     (if m = 2 then (if y mod 4 = 0 \<and> (y mod 100 \<noteq> 0 \<or> y mod 400 = 0) then 29 else 28)
      else if m \<in> set [4, 6, 9, 11] then 30 else 31)"

definition parseDateOnly :: "string \<Rightarrow> jsdate" where
  "parseDateOnly s =
     (if length s = 10 \<and> s ! 4 = CHR ''-'' \<and> s ! 7 = CHR ''-'' then
        (case (natLiteral 10 (take 4 s), natLiteral 10 (take 2 (drop 5 s)),
               natLiteral 10 (drop 8 s)) of
           (Some y, Some m, Some d) \<Rightarrow>
             if 1 \<le> m \<and> m \<le> 12 \<and> 1 \<le> d \<and> d \<le> daysInMonth y m
             then Date (daysFromCivil (int y) (int m) (int d) * 86400000)
             else InvalidDate
         | _ \<Rightarrow> InvalidDate)
      else InvalidDate)"

definition utcRuntime :: runtime where
  "utcRuntime = \<lparr>parseDate = parseDateOnly,
                 endOfLocalDay = (\<lambda>t. Date (t - t mod 86400000 + 86399999))\<rparr>"

section \<open>Leads and the matching of a query\<close>

text \<open>The lead document of the schema (\<^verbatim>\<open>models/Lead.js\<close>), with its owner \<open>user_id\<close>.\<close>

record lead =
  lead_id :: nat
  user_id :: nat
  first_name :: string
  last_name :: string
  email :: string
  phone :: string
  company :: string
  city :: string
  state :: string
  source :: string
  status :: string
  score :: rat
  lead_value :: rat
  last_activity_at :: "int option"
  is_qualified :: bool
  created_at :: int
  updated_at :: int

datatype docval = DStr string | DNum rat | DBool bool | DDate int | DId nat | DNull

definition leadField :: "lead \<Rightarrow> string \<Rightarrow> docval option" where
  "leadField l f =
     (if f = ''_id'' then Some (DId (lead_id l))
      else if f = ''user_id'' then Some (DId (user_id l))
      else if f = ''first_name'' then Some (DStr (first_name l))
      else if f = ''last_name'' then Some (DStr (last_name l))
      else if f = ''email'' then Some (DStr (email l))
      else if f = ''phone'' then Some (DStr (phone l))
      else if f = ''company'' then Some (DStr (company l))
      else if f = ''city'' then Some (DStr (city l))
      else if f = ''state'' then Some (DStr (state l))
      else if f = ''source'' then Some (DStr (source l))
      else if f = ''status'' then Some (DStr (status l))
      else if f = ''score'' then Some (DNum (score l))
      else if f = ''lead_value'' then Some (DNum (lead_value l))
      else if f = ''last_activity_at'' then
        Some (case last_activity_at l of None \<Rightarrow> DNull | Some t \<Rightarrow> DDate t)
      else if f = ''is_qualified'' then Some (DBool (is_qualified l))
      else if f = ''created_at'' then Some (DDate (created_at l))
      else if f = ''updated_at'' then Some (DDate (updated_at l))
      else None)"

text \<open>
  The part of MongoDB's matching that the statements below use: equality on strings and
  identifiers, the four comparisons on numbers and on dates, and \<^verbatim>\<open>$regex\<close> with option
  \<^verbatim>\<open>i\<close> for a pattern without metacharacters. The top-level clauses are a conjunction.
  \<open>None\<close> stands for a clause outside this part: another shape, a value of another type
  than the field's (Mongoose casts it by the schema first), NaN or an invalid date, or a
  field that the schema does not declare (what happens to it depends on Mongoose's
  \<^verbatim>\<open>strictQuery\<close> setting).
\<close>

definition compareOp :: "string \<Rightarrow> (rat \<Rightarrow> rat \<Rightarrow> bool) option" where
  "compareOp p =
     (if p = ''$gt'' then Some (\<lambda>x y. x > y)
      else if p = ''$lt'' then Some (\<lambda>x y. x < y)
      else if p = ''$gte'' then Some (\<lambda>x y. x \<ge> y)
      else if p = ''$lte'' then Some (\<lambda>x y. x \<le> y)
      else None)"

fun holdsOp :: "docval \<Rightarrow> string \<Rightarrow> jsval \<Rightarrow> bool option" where
  "holdsOp (DNum x) p (VNum (Num r)) = map_option (\<lambda>rel. rel x r) (compareOp p)"
| "holdsOp (DDate x) p (VDate (Date t) []) =
     map_option (\<lambda>rel. rel (of_int x) (of_int t)) (compareOp p)"
| "holdsOp _ _ _ = None"

definition allHold :: "bool option list \<Rightarrow> bool option" where
  "allHold rs = (if None \<in> set rs then None else Some (list_all (\<lambda>r. r = Some True) rs))"

definition isLiteralPattern :: "string \<Rightarrow> bool" where
  "isLiteralPattern p \<longleftrightarrow> list_all (\<lambda>c. c \<notin> set (CHR 0x5C # ''^$.|?*+()[]{}'')) p"

definition toLowerCase :: "string \<Rightarrow> string" where
  "toLowerCase s =
     map (\<lambda>c. if 65 \<le> (of_char c :: nat) \<and> (of_char c :: nat) \<le> 90
              then char_of ((of_char c :: nat) + 32) else c) s"

fun includes_str :: "string \<Rightarrow> string \<Rightarrow> bool" where
  "includes_str [] p = (p = [])"
| "includes_str (c # cs) p = (take (length p) (c # cs) = p \<or> includes_str cs p)"

definition clauseHolds :: "docval \<Rightarrow> jsval \<Rightarrow> bool option" where
  "clauseHolds d c =
     (case c of
        VStr s \<Rightarrow> (case d of DStr t \<Rightarrow> Some (t = s) | _ \<Rightarrow> None)
      | VId u ps \<Rightarrow> (case d of DId w \<Rightarrow> if ps = [] then Some (w = u) else None | _ \<Rightarrow> None)
      | VObj ps \<Rightarrow>
          if map fst ps = [''$regex'', ''$options''] then
            (case (d, map snd ps) of
               (DStr t, [VStr p, VStr opt]) \<Rightarrow>
                 if opt = ''i'' \<and> isLiteralPattern p
                 then Some (includes_str (toLowerCase t) (toLowerCase p)) else None
             | _ \<Rightarrow> None)
          else if ps = [] then None
          else allHold (map (\<lambda>(p, v). holdsOp d p v) ps)
      | _ \<Rightarrow> None)"

definition matches :: "query \<Rightarrow> lead \<Rightarrow> bool option" where
  "matches q l =
     allHold (map (\<lambda>(f, c). case leadField l f of None \<Rightarrow> None | Some d \<Rightarrow> clauseHolds d c) q)"

section \<open>Pagination of the listing\<close>

text \<open>
  \<^verbatim>\<open>parseInt(string)\<close>: leading white space, an optional sign, an optional \<^verbatim>\<open>0x\<close>, then the
  longest run of digits; \<open>None\<close> is NaN.
\<close>

definition parseInt :: "string \<Rightarrow> int option" where
  "parseInt str =
     (let s = dropWhile isWhiteSpace str;
          neg = (s \<noteq> [] \<and> hd s = CHR ''-'');
          s1 = (if s \<noteq> [] \<and> hd s \<in> set ''+-'' then tl s else s);
          hex = (take 2 s1 = ''0x'' \<or> take 2 s1 = ''0X'');
          radix = (if hex then 16 else 10);
          s2 = (if hex then drop 2 s1 else s1);
          z = takeWhile (\<lambda>c. case digit_of c of None \<Rightarrow> False | Some d \<Rightarrow> d < radix) s2
      in if z = [] then None
         else map_option (\<lambda>n. if neg then - int n else int n) (digitsVal radix z 0))"

text \<open>
  \<^verbatim>\<open>isInt(str, {min, max})\<close> of the validation library: an optional sign and digits, within
  the bounds.
\<close>

definition isInt :: "string \<Rightarrow> int \<Rightarrow> int option \<Rightarrow> bool" where
  "isInt str lo hi =
     (let ds = (if str \<noteq> [] \<and> hd str \<in> set ''+-'' then tl str else str) in
      ds \<noteq> [] \<and> list_all (\<lambda>c. c \<in> set ''0123456789'') ds \<and>
      (case parseInt str of
         None \<Rightarrow> False
       | Some n \<Rightarrow> lo \<le> n \<and> (case hi of None \<Rightarrow> True | Some h \<Rightarrow> n \<le> h)))"







section \<open>Validation of a lead payload\<close>

text \<open>
  The request body: its fields, each value in the string form in which the validation
  library reads it. Fields other than those of the schema are not modelled.
\<close>

type_synonym body = "(string \<times> string) list"

type_synonym verror = "string \<times> string"

text \<open>
  The checks of the validation library that are not part of this repository:
  \<^verbatim>\<open>isEmail\<close>, \<^verbatim>\<open>normalizeEmail\<close>, \<^verbatim>\<open>isFloat\<close> with \<^verbatim>\<open>{min: 0}\<close>, \<^verbatim>\<open>isISO8601\<close>.
\<close>

record lib =
  isEmail :: "string \<Rightarrow> bool"
  normalizeEmail :: "string \<Rightarrow> string"
  isFloatMin0 :: "string \<Rightarrow> bool"
  isISO8601 :: "string \<Rightarrow> bool"

text \<open>The string a validator sees: an absent field reads as the empty string.\<close>

definition fieldStr :: "body \<Rightarrow> string \<Rightarrow> string" where
  "fieldStr b path = (case map_of b path of None \<Rightarrow> [] | Some s \<Rightarrow> s)"

text \<open>\<^verbatim>\<open>body(path).trim().notEmpty().withMessage(m1).isLength({max}).withMessage(m2)\<close>\<close>

definition requiredText :: "body \<Rightarrow> string \<Rightarrow> string \<Rightarrow> nat \<Rightarrow> string \<Rightarrow> verror list" where
  "requiredText b path m1 mx m2 =
     (let v = trim (fieldStr b path) in
      (if v = [] then [(path, m1)] else []) @ (if length v > mx then [(path, m2)] else []))"

text \<open>\<^verbatim>\<open>body(path).check.withMessage(m)\<close>, with no \<^verbatim>\<open>optional()\<close>.\<close>

definition requiredCheck :: "body \<Rightarrow> string \<Rightarrow> (string \<Rightarrow> bool) \<Rightarrow> string \<Rightarrow> verror list" where
  "requiredCheck b path ok m = (if ok (fieldStr b path) then [] else [(path, m)])"

text \<open>\<^verbatim>\<open>body(path).optional().check.withMessage(m)\<close>: an absent field is skipped.\<close>

definition optionalCheck :: "body \<Rightarrow> string \<Rightarrow> (string \<Rightarrow> bool) \<Rightarrow> string \<Rightarrow> verror list" where
  "optionalCheck b path ok m =
     (case map_of b path of None \<Rightarrow> [] | Some v \<Rightarrow> if ok v then [] else [(path, m)])"

definition isDigit :: "char \<Rightarrow> bool" where
  "isDigit c \<longleftrightarrow> c \<in> set ''0123456789''"

text \<open>The phone pattern \<^verbatim>\<open>/^[\+]?[1-9][\d]{0,15}$/\<close>.\<close>

definition phoneMatches :: "string \<Rightarrow> bool" where
  "phoneMatches s =
     (let t = (if s \<noteq> [] \<and> hd s = CHR ''+'' then tl s else s) in
      case t of
        [] \<Rightarrow> False
      | d # ds \<Rightarrow> d \<in> set ''123456789'' \<and> list_all isDigit ds \<and> length ds \<le> 15)"

definition sources :: "string list" where
  "sources = [''website'', ''facebook_ads'', ''google_ads'', ''referral'', ''events'', ''other'']"

definition statuses :: "string list" where
  "statuses = [''new'', ''contacted'', ''qualified'', ''lost'', ''won'']"

definition isBoolean :: "string \<Rightarrow> bool" where
  "isBoolean v \<longleftrightarrow> v \<in> set [''true'', ''false'', ''1'', ''0'']"

text \<open>The rules \<^verbatim>\<open>leadValidation\<close>, in their order; the result is \<^verbatim>\<open>errors.array()\<close>.\<close>

definition leadValidation :: "lib \<Rightarrow> body \<Rightarrow> verror list" where
  "leadValidation vl b =
     requiredText b ''first_name'' ''First name is required'' 50
       ''First name cannot exceed 50 characters''
     @ requiredText b ''last_name'' ''Last name is required'' 50
       ''Last name cannot exceed 50 characters''
     @ requiredCheck b ''email'' (isEmail vl) ''Please enter a valid email''
     @ requiredCheck b ''phone'' phoneMatches ''Please enter a valid phone number''
     @ requiredText b ''company'' ''Company name is required'' 100
       ''Company name cannot exceed 100 characters''
     @ requiredText b ''city'' ''City is required'' 50 ''City cannot exceed 50 characters''
     @ requiredText b ''state'' ''State is required'' 50 ''State cannot exceed 50 characters''
     @ requiredCheck b ''source'' (\<lambda>v. v \<in> set sources) ''Invalid source value''
     @ optionalCheck b ''status'' (\<lambda>v. v \<in> set statuses) ''Invalid status value''
     @ optionalCheck b ''score'' (\<lambda>v. isInt v 0 (Some 100)) ''Score must be between 0 and 100''
     @ optionalCheck b ''lead_value'' (isFloatMin0 vl) ''Lead value cannot be negative''
     @ optionalCheck b ''is_qualified'' isBoolean ''is_qualified must be a boolean''
     @ optionalCheck b ''last_activity_at'' (isISO8601 vl)
         ''Invalid date format for last_activity_at''"

text \<open>The body after the sanitizers of the chains: \<^verbatim>\<open>trim()\<close> and \<^verbatim>\<open>normalizeEmail()\<close>.\<close>

definition sanitize :: "lib \<Rightarrow> body \<Rightarrow> body" where
  "sanitize vl b =
     map (\<lambda>(k, v).
       if k \<in> set [''first_name'', ''last_name'', ''company'', ''city'', ''state''] then (k, trim v)
       else if k = ''email'' then (k, normalizeEmail vl v)
       else (k, v)) b"

section \<open>The lead schema and the store\<close>

definition wordChar :: "char \<Rightarrow> bool" where
  "wordChar c \<longleftrightarrow>
     (let n = of_char c :: nat in
      (48 \<le> n \<and> n \<le> 57) \<or> (65 \<le> n \<and> n \<le> 90) \<or> (97 \<le> n \<and> n \<le> 122) \<or> n = 95)"

text \<open>\<^verbatim>\<open>\w+([.-]?\w+)*\<close>: word characters, with single dots or hyphens inside.\<close>

fun dottedWords :: "string \<Rightarrow> bool" where
  "dottedWords [] = False"
| "dottedWords [c] = wordChar c"
| "dottedWords (c # d # cs) =
     (wordChar c \<and> (if d \<in> set ''.-'' then cs \<noteq> [] \<and> dottedWords cs else dottedWords (d # cs)))"

text \<open>\<^verbatim>\<open>(\.\w{2,3})+\<close>: one or more groups of a dot and two or three word characters.\<close>

function dotGroups :: "string \<Rightarrow> bool" where
  "dotGroups [] = False"
| "dotGroups (c # cs) =
     (c = CHR ''.'' \<and> length (takeWhile wordChar cs) \<in> {2, 3} \<and>
      (dropWhile wordChar cs = [] \<or> dotGroups (dropWhile wordChar cs)))"
  by pat_completeness auto
termination
  by (relation "measure length") (auto simp: length_dropWhile_le less_Suc_eq_le)

text \<open>
  The pattern of the schema's \<^verbatim>\<open>email\<close> path,
  \<^verbatim>\<open>/^\w+([.-]?\w+)*@\w+([.-]?\w+)*(\.\w{2,3})+$/\<close>.
\<close>

definition emailMatches :: "string \<Rightarrow> bool" where
  "emailMatches s =
     (let loc = takeWhile (\<lambda>c. c \<noteq> CHR ''@'') s; r = dropWhile (\<lambda>c. c \<noteq> CHR ''@'') s in
      r \<noteq> [] \<and> dottedWords loc \<and>
      list_ex (\<lambda>k. dottedWords (take k (tl r)) \<and> dotGroups (drop k (tl r))) [0..<length (tl r)])"

text \<open>The setters of the \<^verbatim>\<open>email\<close> path: \<^verbatim>\<open>lowercase\<close> and \<^verbatim>\<open>trim\<close>.\<close>

definition emailSetter :: "string \<Rightarrow> string" where
  "emailSetter v = trim (toLowerCase v)"

text \<open>Mongoose's cast of a string to a boolean and to a number; \<open>None\<close> is a cast error.\<close>

definition castBoolean :: "string \<Rightarrow> bool option" where
  "castBoolean v =
     (if v \<in> set [''true'', ''1'', ''yes''] then Some True
      else if v \<in> set [''false'', ''0'', ''no''] then Some False
      else None)"

text \<open>
  An empty string would be cast to \<^verbatim>\<open>null\<close>; the request validation has rejected it
  before, and it is a cast error here.
\<close>

definition castNumber :: "string \<Rightarrow> rat option" where
  "castNumber v = (if v = [] then None else case stringToNumber v of Num r \<Rightarrow> Some r | _ \<Rightarrow> None)"

definition castDate :: "runtime \<Rightarrow> string \<Rightarrow> int option" where
  "castDate rt v = (case parseDate rt v of Date t \<Rightarrow> Some t | InvalidDate \<Rightarrow> None)"

text \<open>
  One path of the body written to a document: absent, the document is unchanged; present,
  the value is cast and validated by the schema, and \<open>None\<close> is Mongoose's validation
  or cast error. The paths written are those that \<^verbatim>\<open>leadValidation\<close> checks; a key
  \<^verbatim>\<open>user_id\<close> in the body of an update, which the spread \<^verbatim>\<open>{...req.body}\<close> would pass on
  to the store, is outside this model.
\<close>

definition setPath ::
  "body \<Rightarrow> string \<Rightarrow> (string \<Rightarrow> 'a option) \<Rightarrow> ('a \<Rightarrow> bool) \<Rightarrow> ('a \<Rightarrow> lead \<Rightarrow> lead) \<Rightarrow>
   lead option \<Rightarrow> lead option" where
  "setPath b path cast ok upd r =
     (case r of
        None \<Rightarrow> None
      | Some l \<Rightarrow>
          (case map_of b path of
             None \<Rightarrow> Some l
           | Some v \<Rightarrow>
               (case cast v of
                  None \<Rightarrow> None
                | Some x \<Rightarrow> if ok x then Some (upd x l) else None)))"

definition textPath :: "nat \<Rightarrow> string \<Rightarrow> bool" where
  "textPath mx v \<longleftrightarrow> v \<noteq> [] \<and> length v \<le> mx"

definition applyBody :: "runtime \<Rightarrow> body \<Rightarrow> lead \<Rightarrow> lead option" where
  "applyBody rt b l =
     (setPath b ''last_activity_at'' (\<lambda>v. map_option Some (castDate rt v)) (\<lambda>x. True)
        (\<lambda>x d. d\<lparr>last_activity_at := x\<rparr>)
     (setPath b ''is_qualified'' castBoolean (\<lambda>x. True) (\<lambda>x d. d\<lparr>is_qualified := x\<rparr>)
     (setPath b ''lead_value'' castNumber (\<lambda>x. 0 \<le> x) (\<lambda>x d. d\<lparr>lead_value := x\<rparr>)
     (setPath b ''score'' castNumber (\<lambda>x. 0 \<le> x \<and> x \<le> 100) (\<lambda>x d. d\<lparr>score := x\<rparr>)
     (setPath b ''status'' Some (\<lambda>x. x \<in> set statuses) (\<lambda>x d. d\<lparr>status := x\<rparr>)
     (setPath b ''source'' Some (\<lambda>x. x \<in> set sources) (\<lambda>x d. d\<lparr>source := x\<rparr>)
     (setPath b ''state'' (\<lambda>v. Some (trim v)) (textPath 50) (\<lambda>x d. d\<lparr>state := x\<rparr>)
     (setPath b ''city'' (\<lambda>v. Some (trim v)) (textPath 50) (\<lambda>x d. d\<lparr>city := x\<rparr>)
     (setPath b ''company'' (\<lambda>v. Some (trim v)) (textPath 100) (\<lambda>x d. d\<lparr>company := x\<rparr>)
     (setPath b ''phone'' (\<lambda>v. Some (trim v)) phoneMatches (\<lambda>x d. d\<lparr>phone := x\<rparr>)
     (setPath b ''email'' (\<lambda>v. Some (emailSetter v)) emailMatches (\<lambda>x d. d\<lparr>email := x\<rparr>)
     (setPath b ''last_name'' (\<lambda>v. Some (trim v)) (textPath 50) (\<lambda>x d. d\<lparr>last_name := x\<rparr>)
     (setPath b ''first_name'' (\<lambda>v. Some (trim v)) (textPath 50) (\<lambda>x d. d\<lparr>first_name := x\<rparr>)
        (Some l))))))))))))))"

definition requiredPaths :: "string list" where
  "requiredPaths = [''first_name'', ''last_name'', ''email'', ''phone'', ''company'', ''city'',
     ''state'', ''source'']"

text \<open>
  \<^verbatim>\<open>new Lead({...req.body, user_id})\<close> with the defaults of the schema, validated as
  \<^verbatim>\<open>save()\<close> does before it writes.
\<close>

definition defaults :: "nat \<Rightarrow> int \<Rightarrow> nat \<Rightarrow> lead" where
  "defaults ident time userId =
     \<lparr>lead_id = ident, user_id = userId, first_name = [], last_name = [], email = [],
      phone = [], company = [], city = [], state = [], source = [], status = ''new'',
      score = 0, lead_value = 0, last_activity_at = None, is_qualified = False,
      created_at = time, updated_at = time\<rparr>"

definition newLead :: "runtime \<Rightarrow> nat \<Rightarrow> int \<Rightarrow> nat \<Rightarrow> body \<Rightarrow> lead option" where
  "newLead rt ident time userId b =
     (if list_all (\<lambda>p. map_of b p \<noteq> None) requiredPaths
      then applyBody rt b (defaults ident time userId) else None)"

text \<open>
  The validators of an update (\<^verbatim>\<open>runValidators: true\<close>) read the body alone and run
  before the store is asked.
\<close>

definition updateValid :: "runtime \<Rightarrow> body \<Rightarrow> bool" where
  "updateValid rt b \<longleftrightarrow> applyBody rt b (defaults 0 0 0) \<noteq> None"

text \<open>
  The collection is the list of its documents. The \<^verbatim>\<open>email\<close> path is declared
  \<^verbatim>\<open>unique: true\<close>: the store has a unique index on \<^verbatim>\<open>email\<close> alone, and a write that
  would give two documents the same email fails with the duplicate key error, code 11000.
\<close>

type_synonym store = "lead list"

datatype storeError = DuplicateKey

definition insertDoc :: "store \<Rightarrow> lead \<Rightarrow> storeError + store" where
  "insertDoc st d =
     (if list_ex (\<lambda>l. email l = email d) st then Inl DuplicateKey else Inr (st @ [d]))"

definition replaceDoc :: "store \<Rightarrow> lead \<Rightarrow> storeError + store" where
  "replaceDoc st d =
     (if list_ex (\<lambda>l. lead_id l \<noteq> lead_id d \<and> email l = email d) st then Inl DuplicateKey
      else Inr (map (\<lambda>l. if lead_id l = lead_id d then d else l) st))"

section \<open>The create and update handlers\<close>

record response =
  statusCode :: nat
  success :: bool
  message :: string
  errors :: "verror list"
  data :: "lead option"

definition failure :: "nat \<Rightarrow> string \<Rightarrow> response" where
  "failure code msg = \<lparr>statusCode = code, success = False, message = msg, errors = [], data = None\<rparr>"

text \<open>
  What a request takes from outside the handler: the runtime, the validation library,
  the clock and the identifier given to a new document.
\<close>

record env =
  rtime :: runtime
  vlib :: lib
  now :: int
  newId :: nat

text \<open>\<^verbatim>\<open>router.post('/')\<close>, for the authenticated user \<open>userId\<close>.\<close>

definition postLead :: "env \<Rightarrow> store \<Rightarrow> nat \<Rightarrow> body \<Rightarrow> response \<times> store" where
  "postLead ev st userId b0 =
     (let errs = leadValidation (vlib ev) b0 in
      if errs \<noteq> [] then
        (\<lparr>statusCode = 400, success = False, message = ''Validation failed'', errors = errs,
          data = None\<rparr>, st)
      else
        (let b = sanitize (vlib ev) b0 in
         case find (\<lambda>l. email l = emailSetter (fieldStr b ''email'') \<and> user_id l = userId) st of
           Some existingLead \<Rightarrow> (failure 400 ''A lead with this email already exists'', st)
         | None \<Rightarrow>
             (case newLead (rtime ev) (newId ev) (now ev) userId b of
                None \<Rightarrow> (failure 500 ''Unable to create lead'', st)
              | Some d \<Rightarrow>
                  (case insertDoc st d of
                     Inl DuplicateKey \<Rightarrow> (failure 400 ''A lead with this email already exists'', st)
                   | Inr st' \<Rightarrow>
                       (\<lparr>statusCode = 201, success = True,
                         message = ''Lead created successfully'', errors = [], data = Some d\<rparr>,
                        st')))))"

text \<open>
  \<^verbatim>\<open>router.put('/:id')\<close>. The identifier of the path is \<open>None\<close> when it is not a well-formed
  ObjectId, which makes the store raise a \<^verbatim>\<open>CastError\<close>. After a passed validation the email
  is not empty, so the check for another lead with the same email always runs.
\<close>

definition putLead :: "env \<Rightarrow> store \<Rightarrow> nat \<Rightarrow> nat option \<Rightarrow> body \<Rightarrow> response \<times> store" where
  "putLead ev st userId idParam b0 =
     (let errs = leadValidation (vlib ev) b0 in
      if errs \<noteq> [] then
        (\<lparr>statusCode = 400, success = False, message = ''Validation failed'', errors = errs,
          data = None\<rparr>, st)
      else
        (let b = sanitize (vlib ev) b0 in
         case idParam of
           None \<Rightarrow> (failure 400 ''Invalid lead ID format'', st)
         | Some ident \<Rightarrow>
             if fieldStr b ''email'' \<noteq> [] \<and>
                find (\<lambda>l. email l = emailSetter (fieldStr b ''email'') \<and> user_id l = userId \<and>
                          lead_id l \<noteq> ident) st \<noteq> None
             then (failure 400 ''Another lead with this email already exists'', st)
             else if \<not> updateValid (rtime ev) b then (failure 500 ''Unable to update lead'', st)
             else
               (case find (\<lambda>l. lead_id l = ident \<and> user_id l = userId) st of
                  None \<Rightarrow> (failure 404 ''Lead not found'', st)
                | Some old \<Rightarrow>
                    (case applyBody (rtime ev) b (old\<lparr>updated_at := now ev\<rparr>) of
                       None \<Rightarrow> (failure 500 ''Unable to update lead'', st)
                     | Some d \<Rightarrow>
                         (case replaceDoc st d of
                            Inl DuplicateKey \<Rightarrow>
                              (failure 400 ''A lead with this email already exists'', st)
                          | Inr st' \<Rightarrow>
                              (\<lparr>statusCode = 200, success = True,
                                message = ''Lead updated successfully'', errors = [],
                                data = Some d\<rparr>, st'))))))"

text \<open>
  A sample of the validation library and of a request's surroundings, for evaluating the
  handlers on concrete requests: it takes as an email what the schema's pattern takes and
  normalizes an address to lower case, as the library does for the addresses used below.
\<close>

definition sampleLib :: lib where
  "sampleLib = \<lparr>isEmail = emailMatches, normalizeEmail = toLowerCase,
                 isFloatMin0 = (\<lambda>v. case castNumber v of None \<Rightarrow> False | Some r \<Rightarrow> 0 \<le> r),
                 isISO8601 = (\<lambda>v. parseDateOnly v \<noteq> InvalidDate)\<rparr>"

definition sampleEnv :: env where
  "sampleEnv = \<lparr>rtime = utcRuntime, vlib = sampleLib, now = 1705276800000, newId = 100\<rparr>"

definition sampleBody :: "string \<Rightarrow> body" where
  "sampleBody addr =
     [(''first_name'', ''Jane''), (''last_name'', ''Doe''), (''email'', addr),
      (''phone'', ''+1234567890''), (''company'', ''Acme''), (''city'', ''Austin''),
      (''state'', ''Texas''), (''source'', ''website'')]"

definition sampleLead :: "nat \<Rightarrow> nat \<Rightarrow> string \<Rightarrow> lead" where
  "sampleLead ident userId addr =
     \<lparr>lead_id = ident, user_id = userId, first_name = ''John'', last_name = ''Smith'',
      email = addr, phone = ''+1987654321'', company = ''TechCorp'', city = ''Boston'',
      state = ''Massachusetts'', source = ''referral'', status = ''new'', score = 85,
      lead_value = 50000, last_activity_at = None, is_qualified = True,
      created_at = 1700000000000, updated_at = 1700000000000\<rparr>"

definition sampleStore :: store where
  "sampleStore = [sampleLead 1 1 ''a@acme.com'', sampleLead 2 1 ''b@acme.com'',
                  sampleLead 3 2 ''c@acme.com'']"

section \<open>Auxiliary notions for the statements\<close>

text \<open>The one name of the query that a parameter with the given key can write.\<close>

definition touched :: "string \<Rightarrow> string" where
  "touched key = (if hasUnderscore key then fieldOf key else key)"

text \<open>The case labels of the \<^verbatim>\<open>switch\<close>.\<close>

definition operators :: "string list" where
  "operators = [''equals'', ''contains'', ''in'', ''gt'', ''lt'', ''between'', ''before'', ''after'', ''on'']"

section \<open>Properties of the filter compiler\<close>

lemma fieldOf_no_underscore: "\<not> hasUnderscore (fieldOf key)"
  unfolding hasUnderscore_def fieldOf_def by (auto dest: set_takeWhileD)

lemma operatorOf_no_underscore: "\<not> hasUnderscore (operatorOf key)"
  unfolding hasUnderscore_def operatorOf_def by (auto dest: set_takeWhileD)

lemma fieldOf_not_user_id: "fieldOf key \<noteq> ''user_id''"
proof
  assume "fieldOf key = ''user_id''"
  then have "hasUnderscore (fieldOf key)" by (simp add: hasUnderscore_def)
  then show False by (simp add: fieldOf_no_underscore)
qed

lemma assignProp_other:
  "assignProp q f p v = Inr q' \<Longrightarrow> g \<noteq> f \<Longrightarrow> map_of q' g = map_of q g"
  unfolding assignProp_def
  by (auto simp: update_conv' split: option.splits sum.splits if_splits)

lemma applyOperator_other:
  "applyOperator rt q f opr v = Inr q' \<Longrightarrow> g \<noteq> f \<Longrightarrow> map_of q' g = map_of q g"
  unfolding applyOperator_def
  by (auto simp: update_conv' assignProp_other split: if_splits qval.splits list.splits sum.splits)

lemma filterStep_other:
  "filterStep rt q key v = Inr q' \<Longrightarrow> g \<noteq> touched key \<Longrightarrow> map_of q' g = map_of q g"
  unfolding filterStep_def touched_def
  by (auto simp: Let_def update_conv' dest: applyOperator_other split: if_splits)

lemma filterStep_user_id:
  assumes "filterStep rt q key v = Inr q'"
  shows "map_of q' ''user_id'' = map_of q ''user_id''"
proof (cases "hasUnderscore key")
  case True
  then have "''user_id'' \<noteq> touched key" using fieldOf_not_user_id [of key] by (simp add: touched_def)
  with assms show ?thesis by (rule filterStep_other)
next
  case False
  with assms show ?thesis
    by (auto simp: filterStep_def update_conv' split: if_splits)
qed

lemma forEachKey_user_id:
  "forEachKey rt kvs q = Inr q' \<Longrightarrow> map_of q' ''user_id'' = map_of q ''user_id''"
proof (induction kvs arbitrary: q)
  case Nil
  then show ?case by simp
next
  case (Cons kv kvs)
  obtain key v where kv: "kv = (key, v)" by (cases kv)
  from Cons.prems kv obtain q1 where s: "filterStep rt q key v = Inr q1" and r: "forEachKey rt kvs q1 = Inr q'"
    by (auto split: sum.splits)
  from Cons.IH [OF r] filterStep_user_id [OF s] show ?case by simp
qed

lemma allHold_True: "allHold rs = Some True \<Longrightarrow> r \<in> set rs \<Longrightarrow> r = Some True"
  unfolding allHold_def by (auto simp: list_all_iff split: if_splits)

lemma matches_owner:
  assumes "map_of q ''user_id'' = Some (VId u [])" and "matches q l = Some True"
  shows "user_id l = u"
proof -
  from assms(1) have "(''user_id'', VId u []) \<in> set q" by (rule map_of_SomeD)
  then have "(case leadField l ''user_id'' of None \<Rightarrow> None | Some d \<Rightarrow> clauseHolds d (VId u []))
      \<in> set (map (\<lambda>(f, c). case leadField l f of None \<Rightarrow> None | Some d \<Rightarrow> clauseHolds d c) q)"
    by force
  with assms(2) have "(case leadField l ''user_id'' of None \<Rightarrow> None | Some d \<Rightarrow> clauseHolds d (VId u [])) = Some True"
    unfolding matches_def by (rule allHold_True)
  then show ?thesis by (simp add: leadField_def clauseHolds_def)
qed

lemmas number_defs = Number_def stringToNumber_def trim_def isWhiteSpace_def unsignedDecimal_def
  isExpMark_def mantissa_def natLiteral_def digit_of_def

lemmas step_defs = buildFilterQuery_def filterStep_def hasUnderscore_def fieldOf_def operatorOf_def
  isFalsyAt_def protoProps_def applyOperator_def assignProp_def

lemma score_gt_50_query:
  "buildFilterQuery rt [(''score_gt'', QStr ''50'')] u =
     Inr [(''user_id'', VId u []), (''score'', VObj [(''$gt'', VNum (Num 50))])]"
  by (simp add: step_defs number_defs)

lemma score_gt_50_matches:
  "matches [(''user_id'', VId u []), (''score'', VObj [(''$gt'', VNum (Num 50))])] l =
     Some (user_id l = u \<and> score l > 50)"
  by (auto simp add: matches_def leadField_def clauseHolds_def allHold_def compareOp_def)

text \<open>
  Claim C2. Whatever the filter parameters and the owner, a query that the compiler returns
  holds the clause \<^verbatim>\<open>user_id\<close> equal to that owner, so every lead it matches belongs to
  the owner: no key can write the name \<^verbatim>\<open>user_id\<close>. The parameter \<^verbatim>\<open>score_gt=50\<close> compiles
  to a query that matches exactly the owner's leads with a score above 50.
\<close>

theorem owner_clause_always_present:
  assumes "buildFilterQuery rt filters u = Inr q"
  shows "map_of q ''user_id'' = Some (VId u [])
    \<and> (\<forall>l. matches q l = Some True \<longrightarrow> user_id l = u)
    \<and> (\<exists>q50. buildFilterQuery rt [(''score_gt'', QStr ''50'')] u = Inr q50
          \<and> (\<forall>l. matches q50 l = Some (user_id l = u \<and> score l > 50)))"
proof -
  have own: "map_of q ''user_id'' = Some (VId u [])"
    using forEachKey_user_id [OF assms [unfolded buildFilterQuery_def]] by simp
  moreover from own have "\<forall>l. matches q l = Some True \<longrightarrow> user_id l = u"
    using matches_owner by blast
  moreover have "\<exists>q50. buildFilterQuery rt [(''score_gt'', QStr ''50'')] u = Inr q50
          \<and> (\<forall>l. matches q50 l = Some (user_id l = u \<and> score l > 50))"
    using score_gt_50_query score_gt_50_matches by blast
  ultimately show ?thesis by blast
qed

theorem owner_clause_always_present_witness:
  "buildFilterQuery utcRuntime [(''status'', QStr ''new''), (''score_gt'', QStr ''50'')] 7 =
     Inr [(''user_id'', VId 7 []), (''status'', VStr ''new''),
          (''score'', VObj [(''$gt'', VNum (Num 50))])]
   \<and> map_of [(''user_id'', VId 7 []), (''status'', VStr ''new''),
          (''score'', VObj [(''$gt'', VNum (Num 50))])] ''user_id'' = Some (VId 7 [])
   \<and> matches [(''user_id'', VId 7 []), (''status'', VStr ''new''),
          (''score'', VObj [(''$gt'', VNum (Num 50))])] (sampleLead 1 7 ''john@techcorp.com'')
       = Some True
   \<and> user_id (sampleLead 1 7 ''john@techcorp.com'') = 7"
proof -
  have h: "buildFilterQuery utcRuntime [(''status'', QStr ''new''), (''score_gt'', QStr ''50'')] 7 =
     Inr [(''user_id'', VId 7 []), (''status'', VStr ''new''),
          (''score'', VObj [(''$gt'', VNum (Num 50))])]"
    by (simp add: step_defs number_defs)
  have m: "matches [(''user_id'', VId 7 []), (''status'', VStr ''new''),
          (''score'', VObj [(''$gt'', VNum (Num 50))])] (sampleLead 1 7 ''john@techcorp.com'')
       = Some True"
    by (simp add: matches_def leadField_def clauseHolds_def allHold_def compareOp_def
        sampleLead_def)
  from owner_clause_always_present [OF h] h m show ?thesis by blast
qed

text \<open>
  A query is not always returned: after \<^verbatim>\<open>status=new\<close> the clause on \<^verbatim>\<open>status\<close> is a
  primitive string, and \<^verbatim>\<open>status_gt=1\<close> then sets a property on it, which raises a
  \<^verbatim>\<open>TypeError\<close> in strict mode.
\<close>

lemma primitive_clause_raises:
  "buildFilterQuery rt [(''status'', QStr ''new''), (''status_gt'', QStr ''1'')] u = Inl TypeError"
  by (simp add: step_defs number_defs)

text \<open>
  Claim C4. The parameter \<^verbatim>\<open>created_at_on=2024-01-15\<close> is split at its first underscore
  into the field \<^verbatim>\<open>created\<close> and the operator \<^verbatim>\<open>at\<close>, which no case of the switch
  takes: the compiled query has the empty clause on \<^verbatim>\<open>created\<close> and no clause on
  \<^verbatim>\<open>created_at\<close>, whatever the runtime and the owner.
\<close>

theorem created_at_on_compiles_to_created:
  "buildFilterQuery rt [(''created_at_on'', QStr ''2024-01-15'')] u =
     Inr [(''user_id'', VId u []), (''created'', VObj [])]"
  by (simp add: step_defs)

text \<open>
  Claim C5. The parameter \<^verbatim>\<open>is_qualified=true\<close> has an underscore, so it never reaches the
  branch of the bare keys: it is split into the field \<^verbatim>\<open>is\<close> and the operator
  \<^verbatim>\<open>qualified\<close>, and the compiled query has the empty clause on \<^verbatim>\<open>is\<close> and no clause on
  \<^verbatim>\<open>is_qualified\<close>.
\<close>

theorem is_qualified_compiles_to_is:
  "buildFilterQuery rt [(''is_qualified'', QStr ''true'')] u =
     Inr [(''user_id'', VId u []), (''is'', VObj [])]"
  by (simp add: step_defs)

text \<open>
  The other half of that claim holds: \<^verbatim>\<open>email_contains=corp\<close> compiles to a
  case-insensitive search of \<^verbatim>\<open>corp\<close> in the email.
\<close>

lemma email_contains_query:
  "buildFilterQuery rt [(''email_contains'', QStr ''corp'')] u =
     Inr [(''user_id'', VId u []),
          (''email'', VObj [(''$regex'', VStr ''corp''), (''$options'', VStr ''i'')])]"
  by (simp add: step_defs)

lemma email_contains_matches:
  "matches [(''user_id'', VId u []),
          (''email'', VObj [(''$regex'', VStr ''corp''), (''$options'', VStr ''i'')])] l =
     Some (user_id l = u \<and> includes_str (toLowerCase (email l)) ''corp'')"
  by (auto simp add: matches_def leadField_def clauseHolds_def allHold_def isLiteralPattern_def toLowerCase_def)

lemma filterStep_keys:
  assumes "filterStep rt q key v = Inr q'"
  shows "fst ` set q' \<subseteq> fst ` set q \<union>
     (if hasUnderscore key then {fieldOf key} else {key} \<inter> {''status'', ''source''})"
proof
  fix g assume g: "g \<in> fst ` set q'"
  then have in': "map_of q' g \<noteq> None" by (simp add: map_of_eq_None_iff)
  show "g \<in> fst ` set q \<union> (if hasUnderscore key then {fieldOf key} else {key} \<inter> {''status'', ''source''})"
  proof (cases "hasUnderscore key")
    case True
    show ?thesis
    proof (cases "g = fieldOf key")
      case True
      with \<open>hasUnderscore key\<close> show ?thesis by simp
    next
      case False
      with True have "g \<noteq> touched key" by (simp add: touched_def)
      from filterStep_other [OF assms this] in' have "map_of q g \<noteq> None" by simp
      then show ?thesis by (simp add: map_of_eq_None_iff)
    qed
  next
    case False
    with assms have "q' = q \<or> (key \<in> {''status'', ''source''} \<and> q' = AList.update key (inject v) q)"
      by (auto simp: filterStep_def hasUnderscore_def split: if_splits)
    then show ?thesis
    proof
      assume "q' = q" with g show ?thesis by simp
    next
      assume "key \<in> {''status'', ''source''} \<and> q' = AList.update key (inject v) q"
      then have "fst ` set q' = {key} \<union> fst ` set q" and "key \<in> {''status'', ''source''}"
        by (simp_all add: AList.dom_update)
      with g False show ?thesis by auto
    qed
  qed
qed

lemma forEachKey_keys:
  "forEachKey rt kvs q = Inr q' \<Longrightarrow>
     fst ` set q' \<subseteq> fst ` set q \<union> fieldOf ` {k \<in> fst ` set kvs. hasUnderscore k}
        \<union> ({''status'', ''source''} \<inter> fst ` set kvs)"
proof (induction kvs arbitrary: q)
  case Nil
  then show ?case by simp
next
  case (Cons kv kvs)
  obtain key v where kv: "kv = (key, v)" by (cases kv)
  from Cons.prems kv obtain q1 where s: "filterStep rt q key v = Inr q1" and r: "forEachKey rt kvs q1 = Inr q'"
    by (auto split: sum.splits)
  have a: "fst ` set q' \<subseteq> fst ` set q1 \<union> fieldOf ` {k \<in> fst ` set kvs. hasUnderscore k}
        \<union> ({''status'', ''source''} \<inter> fst ` set kvs)" by (rule Cons.IH [OF r])
  have b: "fst ` set q1 \<subseteq> fst ` set q \<union>
     (if hasUnderscore key then {fieldOf key} else {key} \<inter> {''status'', ''source''})"
    by (rule filterStep_keys [OF s])
  show ?case
  proof
    fix g assume "g \<in> fst ` set q'"
    with a have "g \<in> fst ` set q1 \<or> g \<in> fieldOf ` {k \<in> fst ` set kvs. hasUnderscore k}
        \<or> g \<in> {''status'', ''source''} \<inter> fst ` set kvs" by blast
    moreover have "g \<in> fst ` set q1 \<Longrightarrow> g \<in> fst ` set q \<or> (hasUnderscore key \<and> g = fieldOf key)
        \<or> (g = key \<and> key \<in> {''status'', ''source''})"
      using b by (auto split: if_splits)
    ultimately show "g \<in> fst ` set q \<union> fieldOf ` {k \<in> fst ` set (kv # kvs). hasUnderscore k}
        \<union> ({''status'', ''source''} \<inter> fst ` set (kv # kvs))"
      unfolding kv by auto
  qed
qed

lemma split_key:
  assumes "hasUnderscore key"
  shows "\<exists>rest. key = fieldOf key @ ''_'' @ operatorOf key @ rest \<and> (rest = [] \<or> hd rest = CHR ''_'')"
proof -
  let ?P = "\<lambda>c. c \<noteq> CHR ''_''"
  from assms have "dropWhile ?P key \<noteq> []" by (auto simp: hasUnderscore_def)
  then obtain t where t: "dropWhile ?P key = CHR ''_'' # t"
    using hd_dropWhile [of ?P key] by (cases "dropWhile ?P key") auto
  have k: "key = takeWhile ?P key @ CHR ''_'' # t" using takeWhile_dropWhile_id [of ?P key] t by simp
  have t2: "t = takeWhile ?P t @ dropWhile ?P t" by simp
  have "dropWhile ?P t = [] \<or> hd (dropWhile ?P t) = CHR ''_''"
    using hd_dropWhile [of ?P t] by auto
  moreover have "key = fieldOf key @ ''_'' @ operatorOf key @ dropWhile ?P t"
    using k t by (simp add: fieldOf_def operatorOf_def)
  ultimately show ?thesis by blast
qed

lemma forEachKey_append:
  "forEachKey rt (xs @ ys) q =
     (case forEachKey rt xs q of Inl e \<Rightarrow> Inl e | Inr q' \<Rightarrow> forEachKey rt ys q')"
  by (induction xs arbitrary: q) (auto split: sum.splits)

lemma bare_unknown_step:
  "\<not> hasUnderscore key \<Longrightarrow> key \<notin> set [''status'', ''source''] \<Longrightarrow> filterStep rt q key v = Inr q"
  by (auto simp: filterStep_def hasUnderscore_def)

lemma unknown_operator_step:
  "hasUnderscore key \<Longrightarrow> operatorOf key \<notin> set operators \<Longrightarrow>
   filterStep rt q key v =
     Inr (if isFalsyAt q (fieldOf key) then AList.update (fieldOf key) (VObj []) q else q)"
  by (simp add: filterStep_def applyOperator_def operators_def Let_def)

lemma fieldOf_append:
  "\<not> hasUnderscore f \<Longrightarrow> fieldOf (f @ CHR ''_'' # r) = f"
  by (induction f) (auto simp: fieldOf_def hasUnderscore_def)

lemma operatorOf_append:
  "\<not> hasUnderscore f \<Longrightarrow> \<not> hasUnderscore p \<Longrightarrow> operatorOf (f @ CHR ''_'' # p) = p"
proof -
  assume f: "\<not> hasUnderscore f" and p: "\<not> hasUnderscore p"
  from f have "dropWhile (\<lambda>c. c \<noteq> CHR ''_'') (f @ CHR ''_'' # p) = CHR ''_'' # p"
    by (induction f) (auto simp: hasUnderscore_def)
  moreover from p have "takeWhile (\<lambda>c. c \<noteq> CHR ''_'') p = p"
    by (auto simp: hasUnderscore_def takeWhile_eq_all_conv)
  ultimately show ?thesis by (simp add: operatorOf_def)
qed

lemma first_clause:
  assumes "\<not> hasUnderscore f" and "f \<notin> set protoProps" and "\<not> hasUnderscore p"
  shows "buildFilterQuery rt [(f @ CHR ''_'' # p, v)] u =
     applyOperator rt [(''user_id'', VId u []), (f, VObj [])] f p v"
proof -
  from assms(1) have ne: "f \<noteq> ''user_id''" by (auto simp: hasUnderscore_def)
  have hu: "hasUnderscore (f @ CHR ''_'' # p)" by (simp add: hasUnderscore_def)
  from ne assms(2) have fa: "isFalsyAt [(''user_id'', VId u [])] f" by (simp add: isFalsyAt_def)
  show ?thesis
    using ne hu fa assms
    by (simp add: buildFilterQuery_def filterStep_def fieldOf_append operatorOf_append Let_def
        split: sum.splits)
qed

text \<open>
  Claim C3, as the code has it. A parameter whose key has no underscore and is neither
  \<^verbatim>\<open>status\<close> nor \<^verbatim>\<open>source\<close> leaves the compiled query as if it were absent, wherever it
  stands among the parameters. A parameter whose key has an underscore and an operator
  that is no case of the switch never raises; it leaves the query as it is when its field
  already has a truthy clause, and otherwise sets the empty clause on its field. No field
  name is checked: with a recognized operator, here \<^verbatim>\<open>equals\<close>, any field gets its clause.
\<close>

theorem unknown_parameter_effect:
  "(\<not> hasUnderscore key \<and> key \<notin> set [''status'', ''source''] \<longrightarrow>
      buildFilterQuery rt (xs @ (key, v) # ys) u = buildFilterQuery rt (xs @ ys) u)
   \<and> (hasUnderscore key \<and> operatorOf key \<notin> set operators \<longrightarrow>
      filterStep rt q key v =
        Inr (if isFalsyAt q (fieldOf key) then AList.update (fieldOf key) (VObj []) q else q))
   \<and> (\<not> hasUnderscore f \<and> f \<notin> set protoProps \<longrightarrow>
      buildFilterQuery rt [(f @ ''_equals'', w)] u = Inr [(''user_id'', VId u []), (f, inject w)])"
proof (intro conjI impI)
  assume a: "\<not> hasUnderscore key \<and> key \<notin> set [''status'', ''source'']"
  then have "filterStep rt q' key v = Inr q'" for q' using bare_unknown_step by blast
  then show "buildFilterQuery rt (xs @ (key, v) # ys) u = buildFilterQuery rt (xs @ ys) u"
    by (simp add: buildFilterQuery_def forEachKey_append split: sum.splits)
next
  assume "hasUnderscore key \<and> operatorOf key \<notin> set operators"
  then show "filterStep rt q key v =
        Inr (if isFalsyAt q (fieldOf key) then AList.update (fieldOf key) (VObj []) q else q)"
    using unknown_operator_step by blast
next
  assume f: "\<not> hasUnderscore f \<and> f \<notin> set protoProps"
  then have ne: "f \<noteq> ''user_id''" by (auto simp: hasUnderscore_def)
  have "\<not> hasUnderscore ''equals''" by (simp add: hasUnderscore_def)
  with f have "buildFilterQuery rt [(f @ CHR ''_'' # ''equals'', w)] u =
     applyOperator rt [(''user_id'', VId u []), (f, VObj [])] f ''equals'' w"
    by (simp add: first_clause)
  with ne show "buildFilterQuery rt [(f @ ''_equals'', w)] u =
      Inr [(''user_id'', VId u []), (f, inject w)]"
    by (simp add: applyOperator_def)
qed

theorem unknown_parameter_effect_witness:
  "\<not> hasUnderscore ''colour'' \<and> ''colour'' \<notin> set [''status'', ''source'']
   \<and> buildFilterQuery utcRuntime ([(''score_gt'', QStr ''50'')] @ (''colour'', QStr ''red'') # [(''status'', QStr ''new'')]) 7
       = buildFilterQuery utcRuntime ([(''score_gt'', QStr ''50'')] @ [(''status'', QStr ''new'')]) 7
   \<and> hasUnderscore ''score_above'' \<and> operatorOf ''score_above'' \<notin> set operators
   \<and> filterStep utcRuntime [(''user_id'', VId 7 []), (''score'', VObj [(''$gt'', VNum (Num 50))])] ''score_above'' (QStr ''60'')
       = Inr [(''user_id'', VId 7 []), (''score'', VObj [(''$gt'', VNum (Num 50))])]
   \<and> \<not> hasUnderscore ''colour'' \<and> ''colour'' \<notin> set protoProps
   \<and> buildFilterQuery utcRuntime [(''colour_equals'', QStr ''red'')] 7 =
       Inr [(''user_id'', VId 7 []), (''colour'', VStr ''red'')]"
proof -
  have c: "''colour'' \<notin> set protoProps" by (simp add: protoProps_def)
  have a: "\<not> hasUnderscore ''colour'' \<and> ''colour'' \<notin> set [''status'', ''source'']"
    by (simp add: hasUnderscore_def)
  have b: "hasUnderscore ''score_above'' \<and> operatorOf ''score_above'' \<notin> set operators"
    by (simp add: hasUnderscore_def operatorOf_def operators_def)
  from a b c unknown_parameter_effect [of "''colour''" utcRuntime "[(''score_gt'', QStr ''50'')]"
      "QStr ''red''" "[(''status'', QStr ''new'')]" 7 _ "''colour''" "QStr ''red''"]
    unknown_parameter_effect [of "''score_above''" utcRuntime _ "QStr ''60''" _ _
      "[(''user_id'', VId 7 []), (''score'', VObj [(''$gt'', VNum (Num 50))])]"]
  show ?thesis by (simp add: isFalsyAt_def fieldOf_def)
qed

text \<open>
  Claim C3 as stated fails: the unrecognized operator of \<^verbatim>\<open>foo_bar=1\<close> leaves the empty
  clause on \<^verbatim>\<open>foo\<close>, and the unknown field of \<^verbatim>\<open>foo_gt=5\<close> gets its clause, while
  no parameter at all gives the owner clause alone.
\<close>

theorem unknown_operator_counterexample:
  "buildFilterQuery utcRuntime [(''foo_bar'', QStr ''1'')] 7 =
     Inr [(''user_id'', VId 7 []), (''foo'', VObj [])]
   \<and> buildFilterQuery utcRuntime [(''foo_gt'', QStr ''5'')] 7 =
     Inr [(''user_id'', VId 7 []), (''foo'', VObj [(''$gt'', VNum (Num 5))])]
   \<and> buildFilterQuery utcRuntime [] 7 = Inr [(''user_id'', VId 7 [])]
   \<and> buildFilterQuery utcRuntime [(''foo_bar'', QStr ''1'')] 7 \<noteq> buildFilterQuery utcRuntime [] 7"
  by (simp add: step_defs number_defs)

text \<open>
  Claim C6, as the code has it. The compiler has no error of its own: for a field without
  a clause, the operators \<^verbatim>\<open>gt\<close>, \<^verbatim>\<open>lt\<close> and \<^verbatim>\<open>between\<close> store \<^verbatim>\<open>Number(value)\<close> and
  the operators \<^verbatim>\<open>before\<close>, \<^verbatim>\<open>after\<close> and \<^verbatim>\<open>on\<close> store \<^verbatim>\<open>new Date(value)\<close>, whatever
  the value: NaN and the invalid date are stored like any other result. A \<^verbatim>\<open>between\<close>
  whose value is a string adds no bound.
\<close>

theorem unparsed_values_are_stored:
  assumes "\<not> hasUnderscore f" and "f \<notin> set protoProps"
  shows "buildFilterQuery rt [(f @ ''_gt'', v)] u =
       Inr [(''user_id'', VId u []), (f, VObj [(''$gt'', VNum (Number v))])]
   \<and> buildFilterQuery rt [(f @ ''_lt'', v)] u =
       Inr [(''user_id'', VId u []), (f, VObj [(''$lt'', VNum (Number v))])]
   \<and> buildFilterQuery rt [(f @ ''_between'', QArr [v0, v1])] u =
       Inr [(''user_id'', VId u []),
            (f, VObj [(''$gte'', VNum (Number v0)), (''$lte'', VNum (Number v1))])]
   \<and> buildFilterQuery rt [(f @ ''_before'', v)] u =
       Inr [(''user_id'', VId u []), (f, VObj [(''$lt'', VDate (newDate rt v) [])])]
   \<and> buildFilterQuery rt [(f @ ''_after'', v)] u =
       Inr [(''user_id'', VId u []), (f, VObj [(''$gt'', VDate (newDate rt v) [])])]
   \<and> buildFilterQuery rt [(f @ ''_on'', v)] u =
       Inr [(''user_id'', VId u []),
            (f, VObj [(''$gte'', VDate (newDate rt v) []),
                      (''$lte'', VDate (setHoursEnd rt (newDate rt v)) [])])]
   \<and> buildFilterQuery rt [(f @ ''_between'', QStr s)] u =
       Inr [(''user_id'', VId u []), (f, VObj [])]"
proof -
  from assms(1) have ne: "f \<noteq> ''user_id''" by (auto simp: hasUnderscore_def)
  have p: "\<not> hasUnderscore ''gt''" "\<not> hasUnderscore ''lt''" "\<not> hasUnderscore ''between''"
    "\<not> hasUnderscore ''before''" "\<not> hasUnderscore ''after''" "\<not> hasUnderscore ''on''"
    by (simp_all add: hasUnderscore_def)
  show ?thesis
    using ne first_clause [OF assms p(1)] first_clause [OF assms p(2)] first_clause [OF assms p(3)]
      first_clause [OF assms p(4)] first_clause [OF assms p(5)] first_clause [OF assms p(6)]
    by (simp add: applyOperator_def assignProp_def)
qed

theorem unparsed_values_are_stored_witness:
  "\<not> hasUnderscore ''score'' \<and> ''score'' \<notin> set protoProps
   \<and> buildFilterQuery utcRuntime [(''score_gt'', QStr ''abc'')] 7 =
       Inr [(''user_id'', VId 7 []), (''score'', VObj [(''$gt'', VNum NaN)])]
   \<and> buildFilterQuery utcRuntime [(''score_before'', QStr ''abc'')] 7 =
       Inr [(''user_id'', VId 7 []), (''score'', VObj [(''$lt'', VDate InvalidDate [])])]"
proof -
  have a: "\<not> hasUnderscore ''score''" by (simp add: hasUnderscore_def)
  have b: "''score'' \<notin> set protoProps" by (simp add: protoProps_def)
  have n: "Number (QStr ''abc'') = NaN" by (simp add: number_defs)
  have d: "newDate utcRuntime (QStr ''abc'') = InvalidDate"
    by (simp add: newDate_def utcRuntime_def parseDateOnly_def)
  from unparsed_values_are_stored [OF a b, of utcRuntime "QStr ''abc''" 7] a b n d
  show ?thesis by simp
qed

text \<open>
  Claim C6 as stated fails: \<^verbatim>\<open>score_gt=abc\<close> does not parse as a number, and the compiler
  returns a query with NaN as the bound instead of failing.
\<close>

theorem unparsed_number_counterexample:
  "Number (QStr ''abc'') = NaN
   \<and> buildFilterQuery utcRuntime [(''score_gt'', QStr ''abc'')] 7 =
       Inr [(''user_id'', VId 7 []), (''score'', VObj [(''$gt'', VNum NaN)])]"
  by (simp add: step_defs number_defs)

lemma filterStep_segments:
  assumes "hasUnderscore key"
  shows "filterStep rt q key v = filterStep rt q (fieldOf key @ ''_'' @ operatorOf key) v"
proof -
  let ?k = "fieldOf key @ CHR ''_'' # operatorOf key"
  have "hasUnderscore ?k" by (simp add: hasUnderscore_def)
  moreover have "fieldOf ?k = fieldOf key" by (simp add: fieldOf_append fieldOf_no_underscore)
  moreover have "operatorOf ?k = operatorOf key"
    by (simp add: operatorOf_append fieldOf_no_underscore operatorOf_no_underscore)
  ultimately show ?thesis using assms by (simp add: filterStep_def)
qed

lemma between_fresh:
  "f \<noteq> ''user_id'' \<Longrightarrow>
   (case v of
      QArr [v0, v1] \<Rightarrow>
        (case assignProp [(''user_id'', VId u []), (f, VObj [])] f ''$gte'' (VNum (Number v0)) of
           Inl e \<Rightarrow> Inl e
         | Inr q' \<Rightarrow> assignProp q' f ''$lte'' (VNum (Number v1)))
    | _ \<Rightarrow> Inr [(''user_id'', VId u []), (f, VObj [])]) =
   Inr [(''user_id'', VId u []),
        (f, case v of
              QArr [v0, v1] \<Rightarrow> VObj [(''$gte'', VNum (Number v0)), (''$lte'', VNum (Number v1))]
            | _ \<Rightarrow> VObj [])]"
  by (simp add: assignProp_def split: qval.splits list.splits)

text \<open>The clause that one parameter writes on a field without a clause, by its operator.\<close>

lemma single_parameter:
  assumes "hasUnderscore key" and "fieldOf key \<notin> set protoProps"
  shows "buildFilterQuery rt [(key, v)] u =
     Inr [(''user_id'', VId u []),
          (fieldOf key,
           if operatorOf key = ''equals'' then inject v
           else if operatorOf key = ''contains'' then
             VObj [(''$regex'', inject v), (''$options'', VStr ''i'')]
           else if operatorOf key = ''in'' then
             VObj [(''$in'', case v of QArr xs \<Rightarrow> inject v | _ \<Rightarrow> VArr [inject v] [])]
           else if operatorOf key = ''gt'' then VObj [(''$gt'', VNum (Number v))]
           else if operatorOf key = ''lt'' then VObj [(''$lt'', VNum (Number v))]
           else if operatorOf key = ''between'' then
             (case v of
                QArr [v0, v1] \<Rightarrow> VObj [(''$gte'', VNum (Number v0)), (''$lte'', VNum (Number v1))]
              | _ \<Rightarrow> VObj [])
           else if operatorOf key = ''before'' then VObj [(''$lt'', VDate (newDate rt v) [])]
           else if operatorOf key = ''after'' then VObj [(''$gt'', VDate (newDate rt v) [])]
           else if operatorOf key = ''on'' then
             VObj [(''$gte'', VDate (newDate rt v) []),
                   (''$lte'', VDate (setHoursEnd rt (newDate rt v)) [])]
           else VObj [])]"
proof -
  have ne: "fieldOf key \<noteq> ''user_id''" by (rule fieldOf_not_user_id)
  with assms(2) have fa: "isFalsyAt [(''user_id'', VId u [])] (fieldOf key)"
    by (simp add: isFalsyAt_def)
  have st: "buildFilterQuery rt [(key, v)] u =
     applyOperator rt [(''user_id'', VId u []), (fieldOf key, VObj [])] (fieldOf key) (operatorOf key) v"
    using assms(1) fa ne by (simp add: buildFilterQuery_def filterStep_def Let_def split: sum.splits)
  note b = between_fresh [OF ne]
  show ?thesis
    unfolding st applyOperator_def
    using ne by (simp add: b) (simp add: assignProp_def)
qed

text \<open>
  Claim C10. A key with an underscore is its first segment (the field), an underscore,
  its second segment (the operator) and a rest that is empty or starts with an underscore;
  neither segment has an underscore. The compiler reads such a key through these two
  segments alone: it does to the query what it does for the key made of the two segments,
  and on a field without a clause it writes, under the first segment, the clause that the
  case of the second segment builds, or the empty clause when no case takes the second
  segment. So the names of a compiled query are \<^verbatim>\<open>user_id\<close>, first segments of keys,
  \<^verbatim>\<open>status\<close> and \<^verbatim>\<open>source\<close>: no clause is ever on \<^verbatim>\<open>lead_value\<close>, \<^verbatim>\<open>is_qualified\<close>,
  \<^verbatim>\<open>last_activity_at\<close>, \<^verbatim>\<open>created_at\<close>, \<^verbatim>\<open>first_name\<close> or \<^verbatim>\<open>last_name\<close>, and a key on such
  a field writes the truncated name: \<^verbatim>\<open>lead_value_gt\<close> leaves the empty clause on
  \<^verbatim>\<open>lead\<close>, its operator being \<^verbatim>\<open>value\<close>, where \<^verbatim>\<open>score_gt_min\<close> bounds \<^verbatim>\<open>score\<close>.
\<close>

theorem field_is_first_segment:
  assumes "buildFilterQuery rt filters u = Inr q"
  shows "(\<forall>key. hasUnderscore key \<longrightarrow>
            \<not> hasUnderscore (fieldOf key) \<and> \<not> hasUnderscore (operatorOf key) \<and>
            (\<exists>rest. key = fieldOf key @ ''_'' @ operatorOf key @ rest \<and> (rest = [] \<or> hd rest = CHR ''_'')))
    \<and> fst ` set q \<subseteq> {''user_id''} \<union> fieldOf ` {k \<in> fst ` set filters. hasUnderscore k}
          \<union> ({''status'', ''source''} \<inter> fst ` set filters)
    \<and> (\<forall>f \<in> set [''lead_value'', ''is_qualified'', ''last_activity_at'', ''created_at'',
                  ''first_name'', ''last_name'']. map_of q f = None)
    \<and> fieldOf ''lead_value_gt'' = ''lead'' \<and> fieldOf ''last_activity_at_before'' = ''last''
    \<and> fieldOf ''created_at_on'' = ''created''
    \<and> (\<forall>key q0 v. hasUnderscore key \<longrightarrow>
          filterStep rt q0 key v = filterStep rt q0 (fieldOf key @ ''_'' @ operatorOf key) v)
    \<and> (\<forall>key v. hasUnderscore key \<and> fieldOf key \<notin> set protoProps \<longrightarrow>
          buildFilterQuery rt [(key, v)] u =
            Inr [(''user_id'', VId u []),
                 (fieldOf key,
                  if operatorOf key = ''equals'' then inject v
                  else if operatorOf key = ''contains'' then
                    VObj [(''$regex'', inject v), (''$options'', VStr ''i'')]
                  else if operatorOf key = ''in'' then
                    VObj [(''$in'', case v of QArr xs \<Rightarrow> inject v | _ \<Rightarrow> VArr [inject v] [])]
                  else if operatorOf key = ''gt'' then VObj [(''$gt'', VNum (Number v))]
                  else if operatorOf key = ''lt'' then VObj [(''$lt'', VNum (Number v))]
                  else if operatorOf key = ''between'' then
                    (case v of
                       QArr [v0, v1] \<Rightarrow>
                         VObj [(''$gte'', VNum (Number v0)), (''$lte'', VNum (Number v1))]
                     | _ \<Rightarrow> VObj [])
                  else if operatorOf key = ''before'' then VObj [(''$lt'', VDate (newDate rt v) [])]
                  else if operatorOf key = ''after'' then VObj [(''$gt'', VDate (newDate rt v) [])]
                  else if operatorOf key = ''on'' then
                    VObj [(''$gte'', VDate (newDate rt v) []),
                          (''$lte'', VDate (setHoursEnd rt (newDate rt v)) [])]
                  else VObj [])])
    \<and> (\<forall>v. buildFilterQuery rt [(''lead_value_gt'', v)] u =
              Inr [(''user_id'', VId u []), (''lead'', VObj [])]
          \<and> buildFilterQuery rt [(''last_activity_at_before'', v)] u =
              Inr [(''user_id'', VId u []), (''last'', VObj [])]
          \<and> buildFilterQuery rt [(''first_name_contains'', v)] u =
              Inr [(''user_id'', VId u []), (''first'', VObj [])]
          \<and> buildFilterQuery rt [(''score_gt_min'', v)] u =
              Inr [(''user_id'', VId u []), (''score'', VObj [(''$gt'', VNum (Number v))])]
          \<and> buildFilterQuery rt [(''email_contains_any'', v)] u =
              Inr [(''user_id'', VId u []),
                   (''email'', VObj [(''$regex'', inject v), (''$options'', VStr ''i'')])])"
  (is "?SP \<and> ?KEYS \<and> ?SCH \<and> ?F1 \<and> ?F2 \<and> ?F3 \<and> ?SEG \<and> ?SING \<and> ?CONC")
proof -
  have keys: ?KEYS
    using forEachKey_keys [OF assms [unfolded buildFilterQuery_def]] by simp
  have none: "map_of q f = None" if "hasUnderscore f" "f \<noteq> ''user_id''" for f
  proof -
    have "f \<notin> fieldOf ` {k \<in> fst ` set filters. hasUnderscore k}"
      using that(1) fieldOf_no_underscore by auto
    moreover have "f \<notin> {''status'', ''source''}" using that(1) by (auto simp: hasUnderscore_def)
    ultimately have "f \<notin> fst ` set q" using keys that(2) by auto
    then show ?thesis by (simp add: map_of_eq_None_iff)
  qed
  have sch: ?SCH by (auto intro!: none simp: hasUnderscore_def)
  have f1: ?F1 and f2: ?F2 and f3: ?F3 by (simp_all add: fieldOf_def)
  have sp: ?SP
    using split_key fieldOf_no_underscore operatorOf_no_underscore by blast
  have seg: ?SEG by (intro allI impI) (rule filterStep_segments)
  have sing: ?SING
  proof (intro allI impI)
    fix key v assume "hasUnderscore key \<and> fieldOf key \<notin> set protoProps"
    then have "hasUnderscore key" and "fieldOf key \<notin> set protoProps" by simp_all
    then show "buildFilterQuery rt [(key, v)] u =
            Inr [(''user_id'', VId u []),
                 (fieldOf key,
                  if operatorOf key = ''equals'' then inject v
                  else if operatorOf key = ''contains'' then
                    VObj [(''$regex'', inject v), (''$options'', VStr ''i'')]
                  else if operatorOf key = ''in'' then
                    VObj [(''$in'', case v of QArr xs \<Rightarrow> inject v | _ \<Rightarrow> VArr [inject v] [])]
                  else if operatorOf key = ''gt'' then VObj [(''$gt'', VNum (Number v))]
                  else if operatorOf key = ''lt'' then VObj [(''$lt'', VNum (Number v))]
                  else if operatorOf key = ''between'' then
                    (case v of
                       QArr [v0, v1] \<Rightarrow>
                         VObj [(''$gte'', VNum (Number v0)), (''$lte'', VNum (Number v1))]
                     | _ \<Rightarrow> VObj [])
                  else if operatorOf key = ''before'' then VObj [(''$lt'', VDate (newDate rt v) [])]
                  else if operatorOf key = ''after'' then VObj [(''$gt'', VDate (newDate rt v) [])]
                  else if operatorOf key = ''on'' then
                    VObj [(''$gte'', VDate (newDate rt v) []),
                          (''$lte'', VDate (setHoursEnd rt (newDate rt v)) [])]
                  else VObj [])]"
      by (rule single_parameter)
  qed
  have conc: ?CONC by (simp add: step_defs)
  show ?thesis by (rule conjI sp keys sch f1 f2 f3 seg sing conc)+
qed

theorem field_is_first_segment_witness:
  "buildFilterQuery utcRuntime
     [(''lead_value_gt'', QStr ''100''), (''score_gt_min'', QStr ''50''), (''status'', QStr ''new'')] 7 =
     Inr [(''user_id'', VId 7 []), (''lead'', VObj []),
          (''score'', VObj [(''$gt'', VNum (Num 50))]), (''status'', VStr ''new'')]
   \<and> hasUnderscore ''lead_value_gt'' \<and> fieldOf ''lead_value_gt'' = ''lead''
   \<and> operatorOf ''lead_value_gt'' = ''value''
   \<and> map_of [(''user_id'', VId 7 []), (''lead'', VObj []),
          (''score'', VObj [(''$gt'', VNum (Num 50))]), (''status'', VStr ''new'')] ''lead_value'' = None
   \<and> hasUnderscore ''score_gt_min'' \<and> fieldOf ''score_gt_min'' = ''score''
   \<and> operatorOf ''score_gt_min'' = ''gt'' \<and> ''score'' \<notin> set protoProps
   \<and> filterStep utcRuntime [(''user_id'', VId 7 [])] ''score_gt_min'' (QStr ''50'') =
       filterStep utcRuntime [(''user_id'', VId 7 [])] ''score_gt'' (QStr ''50'')
   \<and> buildFilterQuery utcRuntime [(''score_gt_min'', QStr ''50'')] 7 =
       Inr [(''user_id'', VId 7 []), (''score'', VObj [(''$gt'', VNum (Num 50))])]"
proof -
  have h: "buildFilterQuery utcRuntime
     [(''lead_value_gt'', QStr ''100''), (''score_gt_min'', QStr ''50''), (''status'', QStr ''new'')] 7 =
     Inr [(''user_id'', VId 7 []), (''lead'', VObj []),
          (''score'', VObj [(''$gt'', VNum (Num 50))]), (''status'', VStr ''new'')]"
    by (simp add: step_defs number_defs)
  have k: "hasUnderscore ''lead_value_gt'' \<and> fieldOf ''lead_value_gt'' = ''lead''
     \<and> operatorOf ''lead_value_gt'' = ''value''"
    by (simp add: hasUnderscore_def fieldOf_def operatorOf_def)
  have k2: "hasUnderscore ''score_gt_min''" "fieldOf ''score_gt_min'' = ''score''"
     "operatorOf ''score_gt_min'' = ''gt''" "''score'' \<notin> set protoProps"
    by (simp_all add: hasUnderscore_def fieldOf_def operatorOf_def protoProps_def)
  have n: "Number (QStr ''50'') = Num 50" by (simp add: number_defs)
  note t = field_is_first_segment [OF h]
  from t have a: "map_of [(''user_id'', VId 7 []), (''lead'', VObj []),
     (''score'', VObj [(''$gt'', VNum (Num 50))]), (''status'', VStr ''new'')] ''lead_value'' = None"
    by simp
  from t have "\<forall>key q0 v. hasUnderscore key \<longrightarrow>
          filterStep utcRuntime q0 key v =
          filterStep utcRuntime q0 (fieldOf key @ ''_'' @ operatorOf key) v"
    by (elim conjE)
  from this [rule_format, OF k2(1), of "[(''user_id'', VId 7 [])]" "QStr ''50''"]
  have b: "filterStep utcRuntime [(''user_id'', VId 7 [])] ''score_gt_min'' (QStr ''50'') =
       filterStep utcRuntime [(''user_id'', VId 7 [])] ''score_gt'' (QStr ''50'')"
    by (simp add: k2)
  from t have "\<forall>v. buildFilterQuery utcRuntime [(''score_gt_min'', v)] 7 =
              Inr [(''user_id'', VId 7 []), (''score'', VObj [(''$gt'', VNum (Number v))])]"
    by (elim conjE) simp
  then have c: "buildFilterQuery utcRuntime [(''score_gt_min'', QStr ''50'')] 7 =
       Inr [(''user_id'', VId 7 []), (''score'', VObj [(''$gt'', VNum (Num 50))])]"
    by (simp add: n)
  from h k k2 a b c show ?thesis by blast
qed

section \<open>Properties of the pagination\<close>






section \<open>Properties of the handlers\<close>

lemma first_name_required:
  "map_of b ''first_name'' = None \<Longrightarrow>
   (''first_name'', ''First name is required'') \<in> set (leadValidation vl b)"
  by (simp add: leadValidation_def requiredText_def fieldStr_def trim_def)

text \<open>
  Claim C7, as the code has it. Create and update run the same rules
  \<^verbatim>\<open>leadValidation\<close>: a payload without \<^verbatim>\<open>first_name\<close> fails the validation of either
  with the error "First name is required", is answered 400, and the store is unchanged.
\<close>

theorem required_on_update_too:
  assumes "map_of b ''first_name'' = None"
  shows "(''first_name'', ''First name is required'') \<in> set (leadValidation (vlib ev) b)
    \<and> putLead ev st userId idParam b =
        (\<lparr>statusCode = 400, success = False, message = ''Validation failed'',
          errors = leadValidation (vlib ev) b, data = None\<rparr>, st)
    \<and> postLead ev st userId b =
        (\<lparr>statusCode = 400, success = False, message = ''Validation failed'',
          errors = leadValidation (vlib ev) b, data = None\<rparr>, st)"
proof -
  from assms have m: "(''first_name'', ''First name is required'') \<in> set (leadValidation (vlib ev) b)"
    by (rule first_name_required)
  then have "leadValidation (vlib ev) b \<noteq> []" by auto
  with m show ?thesis by (simp add: putLead_def postLead_def Let_def)
qed

theorem required_on_update_too_witness:
  "map_of (tl (sampleBody ''b@acme.com'')) ''first_name'' = None
   \<and> putLead sampleEnv sampleStore 1 (Some 2) (tl (sampleBody ''b@acme.com'')) =
        (\<lparr>statusCode = 400, success = False, message = ''Validation failed'',
          errors = [(''first_name'', ''First name is required'')], data = None\<rparr>, sampleStore)"
proof -
  have a: "map_of (tl (sampleBody ''b@acme.com'')) ''first_name'' = None" by code_simp
  have e: "leadValidation (vlib sampleEnv) (tl (sampleBody ''b@acme.com'')) =
     [(''first_name'', ''First name is required'')]" by code_simp
  from required_on_update_too [OF a, of sampleEnv sampleStore 1 "Some 2"] a e
  show ?thesis by simp
qed

text \<open>
  Claim C7 as stated fails: an update whose payload lacks \<^verbatim>\<open>first_name\<close> is answered 400
  "Validation failed", where the same payload with \<^verbatim>\<open>first_name\<close> updates the lead.
\<close>

theorem update_without_first_name_counterexample:
  "putLead sampleEnv sampleStore 1 (Some 2) (tl (sampleBody ''b@acme.com'')) =
        (\<lparr>statusCode = 400, success = False, message = ''Validation failed'',
          errors = [(''first_name'', ''First name is required'')], data = None\<rparr>, sampleStore)
   \<and> putLead sampleEnv sampleStore 1 (Some 2) (sampleBody ''b@acme.com'') =
        (\<lparr>statusCode = 200, success = True, message = ''Lead updated successfully'', errors = [],
          data = Some ((sampleLead 2 1 ''b@acme.com'')\<lparr>first_name := ''Jane'', last_name := ''Doe'',
            phone := ''+1234567890'', company := ''Acme'', city := ''Austin'', state := ''Texas'',
            source := ''website'', updated_at := 1705276800000\<rparr>)\<rparr>,
         [sampleLead 1 1 ''a@acme.com'',
          (sampleLead 2 1 ''b@acme.com'')\<lparr>first_name := ''Jane'', last_name := ''Doe'',
            phone := ''+1234567890'', company := ''Acme'', city := ''Austin'', state := ''Texas'',
            source := ''website'', updated_at := 1705276800000\<rparr>,
          sampleLead 3 2 ''c@acme.com''])"
  by code_simp

text \<open>
  Claim C1. The unique index of the store is on \<^verbatim>\<open>email\<close> alone. When user 1 holds a lead
  with an email and user 2 creates a lead with the same email, the request passes the
  validation and the check for a lead of user 2 with that email, and the store refuses the
  write: the answer is 400 "A lead with this email already exists". With an email that no
  lead has, the same request is answered 201.
\<close>

theorem create_same_email_other_owner:
  "leadValidation (vlib sampleEnv) (sampleBody ''a@acme.com'') = []
   \<and> postLead sampleEnv [sampleLead 1 1 ''a@acme.com''] 2 (sampleBody ''a@acme.com'') =
       (failure 400 ''A lead with this email already exists'', [sampleLead 1 1 ''a@acme.com''])
   \<and> statusCode (fst (postLead sampleEnv [sampleLead 1 1 ''a@acme.com''] 2 (sampleBody ''z@acme.com''))) = 201"
  by code_simp


text \<open>
  Claim C8, as the code has it. For a request that passed the validation: a create is
  answered 400 "A lead with this email already exists" both when the check before the write
  finds a lead of the user with the email and when the store refuses the write for its
  unique index; an update is answered 400 in both cases, with "Another lead with this email
  already exists" from the check and "A lead with this email already exists" from the store.
\<close>

theorem duplicate_email_messages:
  assumes "leadValidation (vlib ev) b0 = []" and "b = sanitize (vlib ev) b0"
  shows "(find (\<lambda>l. email l = emailSetter (fieldStr b ''email'') \<and> user_id l = userId) st \<noteq> None \<longrightarrow>
            postLead ev st userId b0 = (failure 400 ''A lead with this email already exists'', st))
    \<and> (find (\<lambda>l. email l = emailSetter (fieldStr b ''email'') \<and> user_id l = userId) st = None \<and>
        newLead (rtime ev) (newId ev) (now ev) userId b = Some d \<and>
        insertDoc st d = Inl DuplicateKey \<longrightarrow>
            postLead ev st userId b0 = (failure 400 ''A lead with this email already exists'', st))
    \<and> (fieldStr b ''email'' \<noteq> [] \<and>
        find (\<lambda>l. email l = emailSetter (fieldStr b ''email'') \<and> user_id l = userId \<and>
                  lead_id l \<noteq> ident) st \<noteq> None \<longrightarrow>
            putLead ev st userId (Some ident) b0 =
              (failure 400 ''Another lead with this email already exists'', st))
    \<and> (find (\<lambda>l. email l = emailSetter (fieldStr b ''email'') \<and> user_id l = userId \<and>
                  lead_id l \<noteq> ident) st = None \<and>
        updateValid (rtime ev) b \<and>
        find (\<lambda>l. lead_id l = ident \<and> user_id l = userId) st = Some old \<and>
        applyBody (rtime ev) b (old\<lparr>updated_at := now ev\<rparr>) = Some d' \<and>
        replaceDoc st d' = Inl DuplicateKey \<longrightarrow>
            putLead ev st userId (Some ident) b0 =
              (failure 400 ''A lead with this email already exists'', st))"
  using assms
  by (auto simp: postLead_def putLead_def Let_def split: option.splits)

theorem duplicate_email_messages_witness:
  "leadValidation (vlib sampleEnv) (sampleBody ''a@acme.com'') = []
   \<and> find (\<lambda>l. email l = ''a@acme.com'' \<and> user_id l = 1) sampleStore \<noteq> None
   \<and> postLead sampleEnv sampleStore 1 (sampleBody ''a@acme.com'') =
        (failure 400 ''A lead with this email already exists'', sampleStore)
   \<and> find (\<lambda>l. email l = ''a@acme.com'' \<and> user_id l = 2) sampleStore = None
   \<and> insertDoc sampleStore ((defaults 100 1705276800000 2)\<lparr>first_name := ''Jane'', last_name := ''Doe'',
        email := ''a@acme.com'', phone := ''+1234567890'', company := ''Acme'', city := ''Austin'',
        state := ''Texas'', source := ''website''\<rparr>) = Inl DuplicateKey
   \<and> postLead sampleEnv sampleStore 2 (sampleBody ''a@acme.com'') =
        (failure 400 ''A lead with this email already exists'', sampleStore)
   \<and> find (\<lambda>l. email l = ''a@acme.com'' \<and> user_id l = 1 \<and> lead_id l \<noteq> 2) sampleStore \<noteq> None
   \<and> putLead sampleEnv sampleStore 1 (Some 2) (sampleBody ''a@acme.com'') =
        (failure 400 ''Another lead with this email already exists'', sampleStore)
   \<and> leadValidation (vlib sampleEnv) (sampleBody ''c@acme.com'') = []
   \<and> find (\<lambda>l. email l = ''c@acme.com'' \<and> user_id l = 1 \<and> lead_id l \<noteq> 2) sampleStore = None
   \<and> replaceDoc sampleStore ((sampleLead 2 1 ''c@acme.com'')\<lparr>first_name := ''Jane'',
        last_name := ''Doe'', phone := ''+1234567890'', company := ''Acme'', city := ''Austin'',
        state := ''Texas'', source := ''website'', updated_at := 1705276800000\<rparr>) = Inl DuplicateKey
   \<and> putLead sampleEnv sampleStore 1 (Some 2) (sampleBody ''c@acme.com'') =
        (failure 400 ''A lead with this email already exists'', sampleStore)"
proof -
  let ?a = "sampleBody ''a@acme.com''" and ?c = "sampleBody ''c@acme.com''"
  let ?d = "(defaults 100 1705276800000 2)\<lparr>first_name := ''Jane'', last_name := ''Doe'',
        email := ''a@acme.com'', phone := ''+1234567890'', company := ''Acme'', city := ''Austin'',
        state := ''Texas'', source := ''website''\<rparr>"
  let ?d' = "(sampleLead 2 1 ''c@acme.com'')\<lparr>first_name := ''Jane'',
        last_name := ''Doe'', phone := ''+1234567890'', company := ''Acme'', city := ''Austin'',
        state := ''Texas'', source := ''website'', updated_at := 1705276800000\<rparr>"
  have va: "leadValidation (vlib sampleEnv) ?a = []" by code_simp
  have vc: "leadValidation (vlib sampleEnv) ?c = []" by code_simp
  have sa: "?a = sanitize (vlib sampleEnv) ?a" by code_simp
  have sc: "?c = sanitize (vlib sampleEnv) ?c" by code_simp
  have ea: "emailSetter (fieldStr ?a ''email'') = ''a@acme.com''" by code_simp
  have ec: "emailSetter (fieldStr ?c ''email'') = ''c@acme.com''" by code_simp
  have nc: "fieldStr ?a ''email'' \<noteq> []" by code_simp
  have h1: "find (\<lambda>l. email l = ''a@acme.com'' \<and> user_id l = 1) sampleStore \<noteq> None" by code_simp
  have h2: "find (\<lambda>l. email l = ''a@acme.com'' \<and> user_id l = 2) sampleStore = None" by code_simp
  have h3: "newLead (rtime sampleEnv) (newId sampleEnv) (now sampleEnv) 2 ?a = Some ?d" by code_simp
  have h4: "insertDoc sampleStore ?d = Inl DuplicateKey" by code_simp
  have h5: "find (\<lambda>l. email l = ''a@acme.com'' \<and> user_id l = 1 \<and> lead_id l \<noteq> 2) sampleStore \<noteq> None"
    by code_simp
  have h6: "find (\<lambda>l. email l = ''c@acme.com'' \<and> user_id l = 1 \<and> lead_id l \<noteq> 2) sampleStore = None"
    by code_simp
  have h7: "updateValid (rtime sampleEnv) ?c" by code_simp
  have h8: "find (\<lambda>l. lead_id l = 2 \<and> user_id l = 1) sampleStore = Some (sampleLead 2 1 ''b@acme.com'')"
    by code_simp
  have h9: "applyBody (rtime sampleEnv) ?c ((sampleLead 2 1 ''b@acme.com'')\<lparr>updated_at := now sampleEnv\<rparr>) = Some ?d'"
    by code_simp
  have h10: "replaceDoc sampleStore ?d' = Inl DuplicateKey" by code_simp
  from duplicate_email_messages [OF va sa, of 1 sampleStore _ 2] h1 h5 nc
  have r1: "postLead sampleEnv sampleStore 1 ?a =
        (failure 400 ''A lead with this email already exists'', sampleStore)"
    and r3: "putLead sampleEnv sampleStore 1 (Some 2) ?a =
        (failure 400 ''Another lead with this email already exists'', sampleStore)"
    by (simp_all add: ea)
  from duplicate_email_messages [OF va sa, of 2 sampleStore ?d] h2 h3 h4
  have r2: "postLead sampleEnv sampleStore 2 ?a =
        (failure 400 ''A lead with this email already exists'', sampleStore)"
    by (simp add: ea)
  from duplicate_email_messages [OF vc sc, of 1 sampleStore _ 2 "sampleLead 2 1 ''b@acme.com''" ?d']
    h6 h7 h8 h9 h10
  have r4: "putLead sampleEnv sampleStore 1 (Some 2) ?c =
        (failure 400 ''A lead with this email already exists'', sampleStore)"
    by (simp add: ec)
  from va vc h1 h2 h4 h5 h6 h10 r1 r2 r3 r4 show ?thesis by blast
qed

text \<open>
  Claim C8 as stated fails for updates: the check before the write answers "Another lead
  with this email already exists", the unique index of the store answers "A lead with this
  email already exists".
\<close>

theorem update_messages_differ_counterexample:
  "putLead sampleEnv sampleStore 1 (Some 2) (sampleBody ''a@acme.com'') =
     (failure 400 ''Another lead with this email already exists'', sampleStore)
   \<and> find (\<lambda>l. email l = ''c@acme.com'' \<and> user_id l = 1 \<and> lead_id l \<noteq> 2) sampleStore = None
   \<and> putLead sampleEnv sampleStore 1 (Some 2) (sampleBody ''c@acme.com'') =
     (failure 400 ''A lead with this email already exists'', sampleStore)"
  by code_simp

end
